theory Spec2Isabelle
  imports Complex_Main
begin

section \<open>Python values\<close>

text \<open>
  The embedding follows \<^verbatim>\<open>python_instance.py\<close>: the statistics, the listener, the
  loop of the execution worker with the routing of its result, the watchdog and the
  control-plane methods. \<^verbatim>\<open>run()\<close>, which subscribes and loads the user code, is not
  embedded. Byte strings and text are character lists. Floating point numbers (time
  stamps from \<^verbatim>\<open>time.time()\<close>, Prometheus sample values) are modelled as exact reals:
  rounding is not part of the model. An exception is an instance of Python's
  \<^verbatim>\<open>Exception\<close> class, the class the two handlers of the loop catch, carried with the
  text that \<^verbatim>\<open>traceback.format_exc()\<close> gives for it.
\<close>

type_synonym bytes = string

datatype exn = Exception (format_exc: string)

text \<open>\<^verbatim>\<open>int(x)\<close> and, in Python 2, \<^verbatim>\<open>long(x)\<close> of a float: truncation towards zero.\<close>

definition py_int :: "real \<Rightarrow> int" where
  "py_int x = (if 0 \<le> x then \<lfloor>x\<rfloor> else \<lceil>x\<rceil>)"

definition py_long :: "real \<Rightarrow> int" where
  "py_long x = py_int x"

section \<open>Stats\<close>

text \<open>
  The Prometheus metrics of class \<^verbatim>\<open>Stats\<close> are class attributes: one family per
  metric, shared by the process, with one child per tuple of label values
  (\<^verbatim>\<open>.labels(*metrics_labels)\<close>); a child starts at zero. The two exception lists and
  \<^verbatim>\<open>last_invocation_time\<close> are class attributes as well. An assignment
  \<^verbatim>\<open>self.x = ...\<close> creates an instance attribute that hides the class attribute from
  then on, while \<^verbatim>\<open>self.x.append(...)\<close> mutates whichever list the lookup finds.
\<close>

type_synonym labelvalues = "string list"

type_synonym exception_record = "string \<times> int"

record Stats =
  stat_total_processed :: "labelvalues \<Rightarrow> real"
  stat_total_processed_successfully :: "labelvalues \<Rightarrow> real"
  stat_total_sys_exceptions :: "labelvalues \<Rightarrow> real"
  stat_total_user_exceptions :: "labelvalues \<Rightarrow> real"
  stats_process_latency_ms_sum :: "labelvalues \<Rightarrow> real"
  stats_process_latency_ms_count :: "labelvalues \<Rightarrow> real"
  cls_latest_user_exception :: "exception_record list"
  cls_latest_sys_exception :: "exception_record list"
  cls_last_invocation_time :: real
  self_latest_user_exception :: "exception_record list option"
  self_latest_sys_exception :: "exception_record list option"
  self_last_invocation_time :: "real option"

text \<open>The class as the module creates it, and a fresh \<^verbatim>\<open>Stats()\<close> object of it.\<close>

definition Stats_new :: Stats where
  "Stats_new =
     \<lparr> stat_total_processed = (\<lambda>_. 0),
       stat_total_processed_successfully = (\<lambda>_. 0),
       stat_total_sys_exceptions = (\<lambda>_. 0),
       stat_total_user_exceptions = (\<lambda>_. 0),
       stats_process_latency_ms_sum = (\<lambda>_. 0),
       stats_process_latency_ms_count = (\<lambda>_. 0),
       cls_latest_user_exception = [],
       cls_latest_sys_exception = [],
       cls_last_invocation_time = 0,
       self_latest_user_exception = None,
       self_latest_sys_exception = None,
       self_last_invocation_time = None \<rparr>"

text \<open>Attribute lookup \<^verbatim>\<open>self.x\<close>: the instance attribute when set, else the class attribute.\<close>

definition latest_user_exception :: "Stats \<Rightarrow> exception_record list" where
  "latest_user_exception st =
     (case self_latest_user_exception st of
        Some l \<Rightarrow> l
      | None \<Rightarrow> cls_latest_user_exception st)"

definition latest_sys_exception :: "Stats \<Rightarrow> exception_record list" where
  "latest_sys_exception st =
     (case self_latest_sys_exception st of
        Some l \<Rightarrow> l
      | None \<Rightarrow> cls_latest_sys_exception st)"

definition last_invocation_time :: "Stats \<Rightarrow> real" where
  "last_invocation_time st =
     (case self_last_invocation_time st of
        Some t \<Rightarrow> t
      | None \<Rightarrow> cls_last_invocation_time st)"

text \<open>An in-place change of the list that \<^verbatim>\<open>self.latest_sys_exception\<close> refers to.\<close>

definition mutate_latest_sys_exception ::
  "(exception_record list \<Rightarrow> exception_record list) \<Rightarrow> Stats \<Rightarrow> Stats" where
  "mutate_latest_sys_exception f st =
     (case self_latest_sys_exception st of
        Some l \<Rightarrow> st\<lparr>self_latest_sys_exception := Some (f l)\<rparr>
      | None \<Rightarrow> st\<lparr>cls_latest_sys_exception := f (cls_latest_sys_exception st)\<rparr>)"

text \<open>
  \<^verbatim>\<open>add_user_exception\<close> and \<^verbatim>\<open>add_sys_exception\<close>. The arguments stand for what the
  two calls inside read from their surroundings: the text of the exception being
  handled (\<^verbatim>\<open>traceback.format_exc()\<close>) and the clock (\<^verbatim>\<open>time.time()\<close>). Both
  functions append to \<^verbatim>\<open>latest_sys_exception\<close>, as the source has it; \<^verbatim>\<open>pop(0)\<close>
  runs on a list of more than ten elements only.
\<close>

definition add_user_exception :: "string \<Rightarrow> real \<Rightarrow> Stats \<Rightarrow> Stats" where
  "add_user_exception exc_text now st =
     (let st1 = mutate_latest_sys_exception (\<lambda>l. l @ [(exc_text, py_int (now * 1000))]) st
      in if length (latest_sys_exception st1) > 10
         then mutate_latest_sys_exception tl st1
         else st1)"

definition add_sys_exception :: "string \<Rightarrow> real \<Rightarrow> Stats \<Rightarrow> Stats" where
  "add_sys_exception exc_text now st =
     (let st1 = mutate_latest_sys_exception (\<lambda>l. l @ [(exc_text, py_int (now * 1000))]) st
      in if length (latest_sys_exception st1) > 10
         then mutate_latest_sys_exception tl st1
         else st1)"

definition reset :: "labelvalues \<Rightarrow> Stats \<Rightarrow> Stats" where
  "reset metrics_labels_arg st =
     st\<lparr> self_latest_user_exception := Some [],
         self_latest_sys_exception := Some [],
         stat_total_processed := (stat_total_processed st)(metrics_labels_arg := 0),
         stat_total_processed_successfully :=
           (stat_total_processed_successfully st)(metrics_labels_arg := 0),
         stat_total_user_exceptions := (stat_total_user_exceptions st)(metrics_labels_arg := 0),
         stat_total_sys_exceptions := (stat_total_sys_exceptions st)(metrics_labels_arg := 0),
         stats_process_latency_ms_sum :=
           (stats_process_latency_ms_sum st)(metrics_labels_arg := 0),
         stats_process_latency_ms_count :=
           (stats_process_latency_ms_count st)(metrics_labels_arg := 0),
         self_last_invocation_time := Some 0 \<rparr>"

text \<open>Prometheus \<^verbatim>\<open>Counter.inc()\<close> and \<^verbatim>\<open>Summary.observe(amount)\<close> on the child of a label tuple.\<close>

definition inc :: "labelvalues \<Rightarrow> (labelvalues \<Rightarrow> real) \<Rightarrow> (labelvalues \<Rightarrow> real)" where
  "inc l family = family(l := family l + 1)"

definition observe :: "labelvalues \<Rightarrow> real \<Rightarrow> Stats \<Rightarrow> Stats" where
  "observe l amount st =
     st\<lparr> stats_process_latency_ms_count := inc l (stats_process_latency_ms_count st),
         stats_process_latency_ms_sum :=
           (stats_process_latency_ms_sum st)(l := stats_process_latency_ms_sum st l + amount) \<rparr>"

section \<open>base64ify\<close>

text \<open>
  \<^verbatim>\<open>base64.urlsafe_b64encode\<close> of the standard library: the base64 encoding with
  padding, three bytes to four characters, then \<^verbatim>\<open>+\<close> and \<^verbatim>\<open>/\<close> translated to
  \<^verbatim>\<open>-\<close> and \<^verbatim>\<open>_\<close>.
\<close>

definition b64_alphabet :: string where
  "b64_alphabet = ''ABCDEFGHIJKLMNOPQRSTUVWXYZabcdefghijklmnopqrstuvwxyz0123456789+/''"

fun b64_groups :: "nat list \<Rightarrow> string" where
  "b64_groups [] = []"
| "b64_groups [a] =
     [b64_alphabet ! (a div 4), b64_alphabet ! ((a mod 4) * 16), CHR ''='', CHR ''='']"
| "b64_groups [a, b] =
     [b64_alphabet ! (a div 4), b64_alphabet ! ((a mod 4) * 16 + b div 16),
      b64_alphabet ! ((b mod 16) * 4), CHR ''='']"
| "b64_groups (a # b # c # rest) =
     [b64_alphabet ! (a div 4), b64_alphabet ! ((a mod 4) * 16 + b div 16),
      b64_alphabet ! ((b mod 16) * 4 + c div 64), b64_alphabet ! (c mod 64)]
     @ b64_groups rest"

definition b64encode :: "bytes \<Rightarrow> bytes" where
  "b64encode s = b64_groups (map of_char s)"

definition urlsafe_translation :: "char \<Rightarrow> char" where
  "urlsafe_translation c =
     (if c = CHR ''+'' then CHR ''-'' else if c = CHR ''/'' then CHR ''_'' else c)"

definition urlsafe_b64encode :: "bytes \<Rightarrow> bytes" where
  "urlsafe_b64encode s = map urlsafe_translation (b64encode s)"

text \<open>
  The argument of \<^verbatim>\<open>base64ify\<close> is a byte string or a text string; a text string is
  held as its UTF-8 bytes, so \<^verbatim>\<open>encode('utf8')\<close> keeps the characters.
  \<^verbatim>\<open>decode('ascii')\<close> raises on a byte outside ASCII.
\<close>

datatype bytes_or_str = Bytes bytes | Str string

fun isinstance_str :: "bytes_or_str \<Rightarrow> bool" where
  "isinstance_str (Str _) = True"
| "isinstance_str (Bytes _) = False"

fun encode_utf8 :: "bytes_or_str \<Rightarrow> bytes" where
  "encode_utf8 (Str t) = t"
| "encode_utf8 (Bytes b) = b"

definition decode_ascii :: "bytes \<Rightarrow> exn + string" where
  "decode_ascii b =
     (if list_all (\<lambda>c. (of_char c :: nat) < 128) b then Inr b
      else Inl (Exception ''UnicodeDecodeError''))"

definition base64ify :: "bool \<Rightarrow> bytes_or_str \<Rightarrow> exn + string" where
  "base64ify py3 bytes_or_str_arg =
     (let input_bytes =
            (if py3 \<and> isinstance_str bytes_or_str_arg then encode_utf8 bytes_or_str_arg
             else (case bytes_or_str_arg of Bytes b \<Rightarrow> b | Str t \<Rightarrow> t));
          output_bytes = urlsafe_b64encode input_bytes
      in if py3 then decode_ascii output_bytes else Inr output_bytes)"

section \<open>The instance and its collaborators\<close>

text \<open>
  The protocol buffer modules, the Pulsar client, the context implementation and the
  user code are not part of \<^verbatim>\<open>python_instance.py\<close>. Of the function details only the
  fields this file reads are kept. The source names two values of
  \<^verbatim>\<open>ProcessingGuarantees\<close>, \<^verbatim>\<open>ATMOST_ONCE\<close> and \<^verbatim>\<open>ATLEAST_ONCE\<close>; the third
  constructor stands for any other value of the enumeration.
\<close>

datatype ProcessingGuarantees = ATLEAST_ONCE | ATMOST_ONCE | EFFECTIVELY_ONCE

record SinkSpec =
  sink_topic :: "string option"
  sink_serDeClassName :: "string option"

record FunctionDetails =
  tenant :: string
  namespace :: string
  name :: string
  processingGuarantees :: ProcessingGuarantees
  autoAck :: bool
  sink :: SinkSpec

record InstanceConfig =
  instance_id :: string
  function_id :: string
  function_version :: string
  function_details :: FunctionDetails
  max_buffered_tuples :: int

text \<open>A transport message: its payload and its serialized message id.\<close>

record Message =
  data :: bytes
  message_id :: bytes

record Consumer =
  consumer_topic :: string

text \<open>\<^verbatim>\<open>pulsar.Result\<close>: \<^verbatim>\<open>Ok\<close>, or any other result code.\<close>

datatype Result = Ok | Failure nat

record 'a SerDe =
  serialize :: "'a \<Rightarrow> exn + bytes option"
  deserialize :: "bytes \<Rightarrow> exn + 'a"

record 'a InternalMessage =
  message :: Message
  topic :: string
  serde :: "'a SerDe"
  consumer :: Consumer

datatype 'a queue_item = Item "'a InternalMessage" | InternalQuitMessage bool

record Producer =
  producer_topic :: string
  block_if_queue_full :: bool
  batching_enabled :: bool
  batching_max_publish_delay_ms :: int
  max_pending_messages :: int

text \<open>
  One call of \<^verbatim>\<open>send_async\<close>: the payload, the properties dictionary in the order of
  its literal, and the two arguments that \<^verbatim>\<open>partial(self.done_producing, ...)\<close> binds
  in the completion callback.
\<close>

record SentMessage =
  content :: bytes
  properties :: "(string \<times> string) list"
  callback_consumer :: Consumer
  callback_orig_message :: Message

record MetricData =
  metric_count :: real
  metric_sum :: real
  metric_min :: real
  metric_max :: real

text \<open>
  Modelled from the spec: \<^verbatim>\<open>contextimpl.ContextImpl\<close> is not in this file. The context
  carries the addressing metadata of the current message and accumulates the
  user-defined metrics; \<^verbatim>\<open>get_metrics\<close> reports them and \<^verbatim>\<open>reset_metrics\<close> clears them.
\<close>

record ContextImpl =
  current_message_id :: "bytes option"
  current_topic :: "string option"
  user_metrics :: "string \<rightharpoonup> MetricData"

definition set_current_message_context :: "bytes \<Rightarrow> string \<Rightarrow> ContextImpl \<Rightarrow> ContextImpl" where
  "set_current_message_context msgid topic_arg c =
     c\<lparr>current_message_id := Some msgid, current_topic := Some topic_arg\<rparr>"

definition contextimpl_get_metrics :: "ContextImpl \<Rightarrow> (string \<rightharpoonup> MetricData)" where
  "contextimpl_get_metrics c = user_metrics c"

definition contextimpl_reset_metrics :: "ContextImpl \<Rightarrow> ContextImpl" where
  "contextimpl_reset_metrics c = c\<lparr>user_metrics := Map.empty\<rparr>"

text \<open>
  The user logic. An instance of the user's class has a state of its own and a
  \<^verbatim>\<open>process(input, context)\<close> method, which may also change the context; a pure
  function has \<^verbatim>\<open>process(input)\<close>. Either returns an output (possibly \<^verbatim>\<open>None\<close>) or
  raises.
\<close>

type_synonym ('a, 'u) process_method =
  "'u \<Rightarrow> 'a \<Rightarrow> ContextImpl \<Rightarrow> (exn + 'a option) \<times> 'u \<times> ContextImpl"

text \<open>
  The attributes of a \<^verbatim>\<open>PythonInstance\<close> come in two records. \<open>InstanceEnv\<close> holds
  what \<^verbatim>\<open>__init__\<close> stores once and no method assigns again, together with the
  surroundings the methods read: the interpreter version, the clock as the sequence of
  values that successive \<^verbatim>\<open>time.time()\<close> calls return, the classes that
  \<^verbatim>\<open>util.import_class\<close> finds and instantiates, and whether \<^verbatim>\<open>create_producer\<close> fails
  for a topic.
\<close>

record 'a InstanceEnv =
  instance_config :: InstanceConfig
  atmost_once :: bool
  atleast_once :: bool
  auto_ack :: bool
  expected_healthcheck_interval :: real
  metrics_labels :: labelvalues
  PY3 :: bool
  clock :: "nat \<Rightarrow> real"
  import_class :: "string \<Rightarrow> 'a SerDe option"
  create_producer_error :: "string \<Rightarrow> exn option"

text \<open>What \<^verbatim>\<open>__init__\<close> computes from its arguments for the four derived attributes.\<close>

definition constructed :: "'a InstanceEnv \<Rightarrow> bool" where
  "constructed self =
     (let fd = function_details (instance_config self)
      in atmost_once self = (processingGuarantees fd = ATMOST_ONCE)
       \<and> atleast_once self = (processingGuarantees fd = ATLEAST_ONCE)
       \<and> auto_ack self = autoAck fd
       \<and> metrics_labels self =
           [tenant fd, namespace fd, name fd, instance_id (instance_config self)])"

text \<open>
  \<open>PythonInstance\<close> holds the attributes that change, for an instance on which
  \<^verbatim>\<open>run()\<close> has completed (the context exists, the execution thread has been
  started), the number of clock readings taken so far, and the effects of the methods
  on the transport and the process: the acknowledgments the instance has issued, the
  messages it has handed to the publisher, the timers it has started, and whether it
  has killed the process. Calls into the \<^verbatim>\<open>log\<close> module touch none of these and are
  left out. Acknowledgments that user logic issues itself through the context are not
  part of \<open>acknowledged\<close>.
\<close>

record ('a, 'u) PythonInstance =
  queue :: "'a queue_item list"
  execution_thread_alive :: bool
  output_serde :: "'a SerDe option"
  function_class :: "('u \<times> ('a, 'u) process_method) option"
  function_purefunction :: "('a \<Rightarrow> exn + 'a option) option"
  producer :: "Producer option"
  contextimpl :: ContextImpl
  stats :: Stats
  last_health_check_ts :: real
  ticks :: nat
  acknowledged :: "(Consumer \<times> Message) list"
  sent :: "SentMessage list"
  timers :: "real list"
  killed :: bool

text \<open>\<^verbatim>\<open>time.time()\<close>: the next value of the clock.\<close>

definition time_time ::
  "'a InstanceEnv \<Rightarrow> ('a, 'u) PythonInstance \<Rightarrow> real \<times> ('a, 'u) PythonInstance" where
  "time_time self s = (clock self (ticks s), s\<lparr>ticks := Suc (ticks s)\<rparr>)"

section \<open>Health check and watchdog\<close>

text \<open>
  \<^verbatim>\<open>health_check\<close> records the time and returns a result whose \<^verbatim>\<open>success\<close> is true.
\<close>

definition health_check ::
  "'a InstanceEnv \<Rightarrow> ('a, 'u) PythonInstance \<Rightarrow> bool \<times> ('a, 'u) PythonInstance" where
  "health_check self s =
     (let (now, s1) = time_time self s
      in (True, s1\<lparr>last_health_check_ts := now\<rparr>))"

text \<open>
  One firing of the timer. \<^verbatim>\<open>os.kill(os.getpid(), signal.SIGKILL)\<close> ends the process:
  nothing after it runs. Otherwise a new \<^verbatim>\<open>Timer\<close> is started with the expected
  interval as its delay.
\<close>

definition process_spawner_health_check_timer ::
  "'a InstanceEnv \<Rightarrow> ('a, 'u) PythonInstance \<Rightarrow> ('a, 'u) PythonInstance" where
  "process_spawner_health_check_timer self s =
     (let (now, s1) = time_time self s
      in if now - last_health_check_ts s1 > expected_healthcheck_interval self * 3
         then s1\<lparr>killed := True\<rparr>
         else s1\<lparr>timers := timers s1 @ [expected_healthcheck_interval self]\<rparr>)"

section \<open>Routing the result\<close>

text \<open>
  A method either returns or raises; the state changes made before a raise stay.
\<close>

datatype 's outcome = Returns 's | Raises exn 's

definition and_then :: "'s outcome \<Rightarrow> ('s \<Rightarrow> 's outcome) \<Rightarrow> 's outcome" where
  "and_then r f = (case r of Returns s \<Rightarrow> f s | Raises e s \<Rightarrow> Raises e s)"

definition DEFAULT_SERIALIZER :: string where
  "DEFAULT_SERIALIZER = ''serde.IdentitySerDe''"

text \<open>
  \<^verbatim>\<open>util.import_class\<close> gives \<^verbatim>\<open>None\<close> for a class it does not find, and calling
  \<^verbatim>\<open>None\<close> raises \<^verbatim>\<open>TypeError\<close>.
\<close>

definition setup_output_serde ::
  "'a InstanceEnv \<Rightarrow> ('a, 'u) PythonInstance \<Rightarrow> ('a, 'u) PythonInstance outcome" where
  "setup_output_serde self s =
     (let sk = sink (function_details (instance_config self));
          class_name =
            (if sink_serDeClassName sk \<noteq> None \<and> length (the (sink_serDeClassName sk)) > 0
             then the (sink_serDeClassName sk)
             else DEFAULT_SERIALIZER)
      in case import_class self class_name of
           None \<Rightarrow> Raises (Exception ''TypeError'') s
         | Some sd \<Rightarrow> Returns (s\<lparr>output_serde := Some sd\<rparr>))"

definition setup_producer ::
  "'a InstanceEnv \<Rightarrow> ('a, 'u) PythonInstance \<Rightarrow> ('a, 'u) PythonInstance outcome" where
  "setup_producer self s =
     (let sk = sink (function_details (instance_config self))
      in if sink_topic sk \<noteq> None \<and> length (the (sink_topic sk)) > 0
         then (case create_producer_error self (the (sink_topic sk)) of
                 Some e \<Rightarrow> Raises e s
               | None \<Rightarrow>
                   Returns (s\<lparr>producer := Some
                     \<lparr> producer_topic = the (sink_topic sk),
                       block_if_queue_full = True,
                       batching_enabled = True,
                       batching_max_publish_delay_ms = 1,
                       max_pending_messages = 100000 \<rparr>\<rparr>))
         else Returns s)"

text \<open>\<^verbatim>\<open>consumer.acknowledge(message)\<close>, as issued by the instance.\<close>

definition acknowledge ::
  "Consumer \<Rightarrow> Message \<Rightarrow> ('a, 'u) PythonInstance \<Rightarrow> ('a, 'u) PythonInstance" where
  "acknowledge c m s = s\<lparr>acknowledged := acknowledged s @ [(c, m)]\<rparr>"

text \<open>
  The completion callback of a publish; \<^verbatim>\<open>sent_message\<close> is not read.
\<close>

definition done_producing ::
  "'a InstanceEnv \<Rightarrow> Consumer \<Rightarrow> Message \<Rightarrow> Result \<Rightarrow> bytes \<Rightarrow>
   ('a, 'u) PythonInstance \<Rightarrow> ('a, 'u) PythonInstance" where
  "done_producing self consumer_arg orig_message result sent_message s =
     (if result = Ok \<and> auto_ack self \<and> atleast_once self
      then acknowledge consumer_arg orig_message s
      else s)"

definition send_async ::
  "bytes \<Rightarrow> Consumer \<Rightarrow> Message \<Rightarrow> (string \<times> string) list \<Rightarrow>
   ('a, 'u) PythonInstance \<Rightarrow> ('a, 'u) PythonInstance" where
  "send_async output_bytes cb_consumer cb_message props s =
     s\<lparr>sent := sent s @
       [\<lparr> content = output_bytes, properties = props,
          callback_consumer = cb_consumer, callback_orig_message = cb_message \<rparr>]\<rparr>"

text \<open>
  The last part of the first branch of \<^verbatim>\<open>process_result\<close>, once the output serde and
  the producer have been set up: serialize the output and, unless the bytes are
  \<^verbatim>\<open>None\<close>, build the properties and call \<^verbatim>\<open>send_async\<close>.
\<close>

definition serialize_and_send ::
  "'a InstanceEnv \<Rightarrow> 'a \<Rightarrow> 'a InternalMessage \<Rightarrow> ('a, 'u) PythonInstance \<Rightarrow>
   ('a, 'u) PythonInstance outcome" where
  "serialize_and_send self output msg s =
     (case output_serde s of
        None \<Rightarrow> Raises (Exception ''AttributeError'') s
      | Some sd \<Rightarrow>
         (case serialize sd output of
            Inl e \<Rightarrow> Raises e s
          | Inr None \<Rightarrow> Returns s
          | Inr (Some output_bytes) \<Rightarrow>
             (case base64ify (PY3 self) (Bytes (message_id (message msg))) of
                Inl e \<Rightarrow> Raises e s
              | Inr msg_id_b64 \<Rightarrow>
                 (let props = [(''__pfn_input_topic__'', topic msg),
                               (''__pfn_input_msg_id__'', msg_id_b64)]
                  in case producer s of
                       None \<Rightarrow> Raises (Exception ''AttributeError'') s
                     | Some _ \<Rightarrow>
                         Returns (send_async output_bytes (consumer msg) (message msg)
                                    props s)))))"

definition process_result ::
  "'a InstanceEnv \<Rightarrow> 'a option \<Rightarrow> 'a InternalMessage \<Rightarrow> ('a, 'u) PythonInstance \<Rightarrow>
   ('a, 'u) PythonInstance outcome" where
  "process_result self output msg s =
     (let sk = sink (function_details (instance_config self))
      in if output \<noteq> None \<and> sink_topic sk \<noteq> None \<and> length (the (sink_topic sk)) > 0
         then
           and_then (if output_serde s = None then setup_output_serde self s else Returns s)
             (\<lambda>s1.
           and_then (if producer s1 = None then setup_producer self s1 else Returns s1)
             (serialize_and_send self (the output) msg))
         else if auto_ack self \<and> atleast_once self
         then Returns (acknowledge (consumer msg) (message msg) s)
         else Returns s)"

section \<open>The execution worker\<close>

text \<open>
  The call of the user logic inside the inner \<^verbatim>\<open>try\<close>. When neither
  \<^verbatim>\<open>function_class\<close> nor \<^verbatim>\<open>function_purefunction\<close> is set, the attribute access on
  \<^verbatim>\<open>None\<close> raises there.
\<close>

definition call_user_function ::
  "'a \<Rightarrow> ('a, 'u) PythonInstance \<Rightarrow> (exn + 'a option) \<times> ('a, 'u) PythonInstance" where
  "call_user_function input_object s =
     (case function_class s of
        Some (u, process) \<Rightarrow>
          (let (r, u', c') = process u input_object (contextimpl s)
           in (r, s\<lparr>function_class := Some (u', process), contextimpl := c'\<rparr>))
      | None \<Rightarrow>
          (case function_purefunction s of
             Some process \<Rightarrow> (process input_object, s)
           | None \<Rightarrow> (Inl (Exception ''AttributeError''), s)))"

text \<open>The two ways out of the inner \<^verbatim>\<open>try\<close>: its last two statements, and its handler.\<close>

definition user_function_returned ::
  "'a InstanceEnv \<Rightarrow> real \<Rightarrow> ('a, 'u) PythonInstance \<Rightarrow> ('a, 'u) PythonInstance" where
  "user_function_returned self start_time s =
     (let (end_time, s1) = time_time self s;
          s2 = s1\<lparr>stats := observe (metrics_labels self) ((end_time - start_time) * 1000)
                              (stats s1)\<rparr>
      in s2\<lparr>stats := (stats s2)\<lparr>stat_total_processed :=
                         inc (metrics_labels self) (stat_total_processed (stats s2))\<rparr>\<rparr>)"

definition user_function_raised ::
  "'a InstanceEnv \<Rightarrow> exn \<Rightarrow> ('a, 'u) PythonInstance \<Rightarrow> ('a, 'u) PythonInstance" where
  "user_function_raised self e s =
     (let s1 = s\<lparr>stats := (stats s)\<lparr>stat_total_user_exceptions :=
                             inc (metrics_labels self) (stat_total_user_exceptions (stats s))\<rparr>\<rparr>;
          (now, s2) = time_time self s1
      in s2\<lparr>stats := add_user_exception (format_exc e) now (stats s2)\<rparr>)"

text \<open>
  The inner \<^verbatim>\<open>try\<close> statement. The result is \<^verbatim>\<open>successfully_executed\<close>,
  \<^verbatim>\<open>output_object\<close> and the state.
\<close>

definition invoke_user_logic ::
  "'a InstanceEnv \<Rightarrow> 'a \<Rightarrow> ('a, 'u) PythonInstance \<Rightarrow>
   bool \<times> 'a option \<times> ('a, 'u) PythonInstance" where
  "invoke_user_logic self input_object s =
     (let (start_time, s1) = time_time self s;
          s2 = s1\<lparr>stats := (stats s1)\<lparr>self_last_invocation_time := Some (start_time * 1000)\<rparr>\<rparr>;
          (r, s3) = call_user_function input_object s2
      in case r of
           Inr output_object \<Rightarrow> (True, output_object, user_function_returned self start_time s3)
         | Inl e \<Rightarrow> (False, None, user_function_raised self e s3))"

text \<open>The outermost \<^verbatim>\<open>except Exception\<close> of the loop.\<close>

definition uncaught_exception ::
  "'a InstanceEnv \<Rightarrow> exn \<Rightarrow> ('a, 'u) PythonInstance \<Rightarrow> ('a, 'u) PythonInstance" where
  "uncaught_exception self e s =
     (let s1 = s\<lparr>stats := (stats s)\<lparr>stat_total_sys_exceptions :=
                             inc (metrics_labels self) (stat_total_sys_exceptions (stats s))\<rparr>\<rparr>;
          (now, s2) = time_time self s1
      in s2\<lparr>stats := add_sys_exception (format_exc e) now (stats s2)\<rparr>)"

text \<open>The end of the outer \<^verbatim>\<open>try\<close> body, run when the user logic has returned.\<close>

definition route_result ::
  "'a InstanceEnv \<Rightarrow> 'a option \<Rightarrow> 'a InternalMessage \<Rightarrow> ('a, 'u) PythonInstance \<Rightarrow>
   ('a, 'u) PythonInstance" where
  "route_result self output_object msg s =
     (case process_result self output_object msg s of
        Raises e s1 \<Rightarrow> uncaught_exception self e s1
      | Returns s1 \<Rightarrow>
          s1\<lparr>stats := (stats s1)\<lparr>stat_total_processed_successfully :=
            inc (metrics_labels self) (stat_total_processed_successfully (stats s1))\<rparr>\<rparr>)"

text \<open>
  One pass of the loop body for a dequeued \<^verbatim>\<open>InternalMessage\<close>, from the
  deserialization to the end of the outer \<^verbatim>\<open>try\<close> statement.
\<close>

definition execute_message ::
  "'a InstanceEnv \<Rightarrow> 'a InternalMessage \<Rightarrow> ('a, 'u) PythonInstance \<Rightarrow>
   ('a, 'u) PythonInstance" where
  "execute_message self msg s =
     (case deserialize (serde msg) (data (message msg)) of
        Inl e \<Rightarrow> uncaught_exception self e s
      | Inr input_object \<Rightarrow>
          (let s1 = s\<lparr>contextimpl :=
                         set_current_message_context (message_id (message msg)) (topic msg)
                           (contextimpl s)\<rparr>;
               (successfully_executed, output_object, s2) = invoke_user_logic self input_object s1
           in if successfully_executed then route_result self output_object msg s2 else s2))"

section \<open>The queue, the listener and the worker loop\<close>

text \<open>
  \<^verbatim>\<open>queue.Queue(max_buffered_tuples)\<close>: a FIFO queue, unbounded when its size limit is
  not positive. A blocking \<^verbatim>\<open>put\<close> on a full queue does not complete: the result is
  \<^verbatim>\<open>None\<close> while the caller stays suspended.
\<close>

definition queue_full :: "'a InstanceEnv \<Rightarrow> ('a, 'u) PythonInstance \<Rightarrow> bool" where
  "queue_full self s =
     (max_buffered_tuples (instance_config self) > 0
      \<and> int (length (queue s)) \<ge> max_buffered_tuples (instance_config self))"

definition queue_put ::
  "'a InstanceEnv \<Rightarrow> 'a queue_item \<Rightarrow> ('a, 'u) PythonInstance \<Rightarrow>
   ('a, 'u) PythonInstance option" where
  "queue_put self x s = (if queue_full self s then None else Some (s\<lparr>queue := queue s @ [x]\<rparr>))"

definition message_listener ::
  "'a InstanceEnv \<Rightarrow> 'a SerDe \<Rightarrow> Consumer \<Rightarrow> Message \<Rightarrow> ('a, 'u) PythonInstance \<Rightarrow>
   ('a, 'u) PythonInstance option" where
  "message_listener self serde_arg consumer_arg message_arg s =
     (let item = \<lparr> message = message_arg, topic = consumer_topic consumer_arg,
                    serde = serde_arg, consumer = consumer_arg \<rparr>
      in case queue_put self (Item item) s of
           None \<Rightarrow> None
         | Some s1 \<Rightarrow>
             Some (if atmost_once self \<and> auto_ack self
                   then acknowledge consumer_arg message_arg s1
                   else s1))"

text \<open>
  One pass of \<^verbatim>\<open>while True\<close> in \<^verbatim>\<open>actual_execution\<close>: a blocking \<^verbatim>\<open>get\<close>, then
  either the \<^verbatim>\<open>break\<close> on the quit message, after which the thread ends, or the body
  for the message. The pass cannot start (\<^verbatim>\<open>None\<close>) while the queue is empty or once
  the thread has ended.
\<close>

definition worker_pass ::
  "'a InstanceEnv \<Rightarrow> ('a, 'u) PythonInstance \<Rightarrow> ('a, 'u) PythonInstance option" where
  "worker_pass self s =
     (if \<not> execution_thread_alive s then None
      else case queue s of
             [] \<Rightarrow> None
           | InternalQuitMessage _ # rest \<Rightarrow>
               Some (s\<lparr>queue := rest, execution_thread_alive := False\<rparr>)
           | Item msg # rest \<Rightarrow> Some (execute_message self msg (s\<lparr>queue := rest\<rparr>)))"

text \<open>
  The loop body neither reads nor assigns the queue and the thread's liveness:
  \<open>detach\<close> sets the two, and every step of the body commutes with it.
\<close>

definition detach ::
  "'a queue_item list \<Rightarrow> bool \<Rightarrow> ('a, 'u) PythonInstance \<Rightarrow> ('a, 'u) PythonInstance" where
  "detach q a s = s\<lparr>queue := q, execution_thread_alive := a\<rparr>"

lemma time_time_detach:
  "time_time self (detach q a s) = (fst (time_time self s), detach q a (snd (time_time self s)))"
  by (simp add: time_time_def detach_def)

lemma setup_output_serde_detach:
  "setup_output_serde self (detach q a s) = map_outcome (detach q a) (setup_output_serde self s)"
  by (simp add: setup_output_serde_def detach_def Let_def split: option.split)

lemma setup_producer_detach:
  "setup_producer self (detach q a s) = map_outcome (detach q a) (setup_producer self s)"
  by (simp add: setup_producer_def detach_def Let_def split: option.split)

lemma and_then_Returns [simp]: "and_then (Returns s) f = f s"
  and and_then_Raises [simp]: "and_then (Raises e s) f = Raises e s"
  by (simp_all add: and_then_def)

lemma and_then_detach:
  assumes "\<And>s. f (detach q a s) = map_outcome (detach q a) (f' s)"
  shows "and_then (map_outcome (detach q a) r) f = map_outcome (detach q a) (and_then r f')"
  using assms by (cases r) (simp_all add: and_then_def)

lemma serialize_and_send_detach:
  "serialize_and_send self out msg (detach q a s) = map_outcome (detach q a) (serialize_and_send self out msg s)"
  by (simp add: serialize_and_send_def send_async_def detach_def Let_def split: option.split sum.split)

lemma output_serde_detach: "output_serde (detach q a s) = output_serde s"
  and producer_detach: "producer (detach q a s) = producer s"
  by (simp_all add: detach_def)

lemma acknowledge_detach: "acknowledge c m (detach q a s) = detach q a (acknowledge c m s)"
  by (simp add: acknowledge_def detach_def)

lemma process_result_detach:
  "process_result self out msg (detach q a s) = map_outcome (detach q a) (process_result self out msg s)"
proof -
  have inner: "and_then (if producer (detach q a s1) = None then setup_producer self (detach q a s1) else Returns (detach q a s1))
             (serialize_and_send self (the out) msg)
        = map_outcome (detach q a) (and_then (if producer s1 = None then setup_producer self s1 else Returns s1)
             (serialize_and_send self (the out) msg))" for s1
  proof (cases "producer s1")
    case None
    then show ?thesis
      by (simp add: producer_detach setup_producer_detach and_then_detach [where f = "serialize_and_send self (the out) msg"
            and f' = "serialize_and_send self (the out) msg", OF serialize_and_send_detach])
  next
    case (Some p)
    then show ?thesis
      by (simp add: producer_detach and_then_Returns serialize_and_send_detach)
  qed
  show ?thesis
  proof (cases "output_serde s")
    case None
    then show ?thesis
      unfolding process_result_def Let_def
      by (simp add: output_serde_detach setup_output_serde_detach acknowledge_detach
            and_then_detach [where f' = "\<lambda>s1. and_then (if producer s1 = None then setup_producer self s1 else Returns s1)
             (serialize_and_send self (the out) msg)", OF inner])
  next
    case (Some sd)
    then show ?thesis
      unfolding process_result_def Let_def
      by (simp add: output_serde_detach acknowledge_detach and_then_Returns inner)
  qed
qed

lemma call_user_function_detach:
  "call_user_function x (detach q a s) = (fst (call_user_function x s), detach q a (snd (call_user_function x s)))"
  by (simp add: call_user_function_def detach_def split_def Let_def split: option.split)

lemma user_function_returned_detach:
  "user_function_returned self t (detach q a s) = detach q a (user_function_returned self t s)"
  by (simp add: user_function_returned_def time_time_detach split_def Let_def) (simp add: detach_def)

lemma user_function_raised_detach:
  "user_function_raised self e (detach q a s) = detach q a (user_function_raised self e s)"
  by (simp add: user_function_raised_def time_time_def split_def Let_def detach_def)

lemma uncaught_exception_detach:
  "uncaught_exception self e (detach q a s) = detach q a (uncaught_exception self e s)"
  by (simp add: uncaught_exception_def time_time_def split_def Let_def detach_def)

lemma invoke_user_logic_detach:
  "invoke_user_logic self x (detach q a s) =
     (fst (invoke_user_logic self x s), fst (snd (invoke_user_logic self x s)),
      detach q a (snd (snd (invoke_user_logic self x s))))"
proof -
  have upd: "(detach q a s')\<lparr>stats := v\<rparr> = detach q a (s'\<lparr>stats := v\<rparr>)" for s' :: "('a, 'b) PythonInstance" and v
    by (simp add: detach_def)
  have st: "stats (detach q a s') = stats s'" for s' :: "('a, 'b) PythonInstance"
    by (simp add: detach_def)
  show ?thesis
    unfolding invoke_user_logic_def Let_def split_def
    by (simp add: time_time_detach upd st call_user_function_detach
          user_function_returned_detach user_function_raised_detach split: sum.split)
qed

lemma route_result_detach:
  "route_result self out msg (detach q a s) = detach q a (route_result self out msg s)"
  unfolding route_result_def process_result_detach
  by (cases "process_result self out msg s") (simp_all add: uncaught_exception_detach, simp add: detach_def)

lemma execute_message_detach:
  "execute_message self msg (detach q a s) = detach q a (execute_message self msg s)"
proof -
  have upd: "(detach q a s')\<lparr>contextimpl := v\<rparr> = detach q a (s'\<lparr>contextimpl := v\<rparr>)" for s' :: "('a, 'b) PythonInstance" and v
    by (simp add: detach_def)
  have st: "contextimpl (detach q a s') = contextimpl s'" for s' :: "('a, 'b) PythonInstance"
    by (simp add: detach_def)
  show ?thesis
    unfolding execute_message_def Let_def split_def
    by (simp add: upd st invoke_user_logic_detach route_result_detach uncaught_exception_detach split: sum.split)
qed

lemma execute_message_queue: "queue (execute_message self msg s) = queue s"
proof -
  have "s = detach (queue s) (execution_thread_alive s) s" by (simp add: detach_def)
  then have "execute_message self msg s = detach (queue s) (execution_thread_alive s) (execute_message self msg s)"
    using execute_message_detach by metis
  then have "queue (execute_message self msg s) = queue (detach (queue s) (execution_thread_alive s) (execute_message self msg s))"
    by simp
  then show ?thesis by (simp add: detach_def)
qed

lemma execute_message_alive:
  "execution_thread_alive (execute_message self msg s) = execution_thread_alive s"
proof -
  have "s = detach (queue s) (execution_thread_alive s) s" by (simp add: detach_def)
  then have "execute_message self msg s =
      detach (queue s) (execution_thread_alive s) (execute_message self msg s)"
    using execute_message_detach by metis
  then have "execution_thread_alive (execute_message self msg s) =
      execution_thread_alive (detach (queue s) (execution_thread_alive s) (execute_message self msg s))"
    by simp
  then show ?thesis by (simp add: detach_def)
qed

text \<open>
  \<^verbatim>\<open>actual_execution\<close>, run on the queue as it stands with no producer adding to it:
  the loop leaves through the \<^verbatim>\<open>break\<close> and the thread ends (\<open>Exited\<close>), or it
  comes to an empty queue and stays in \<^verbatim>\<open>get\<close> (\<open>Blocked\<close>).
\<close>

datatype 's worker_end = Exited 's | Blocked 's

function actual_execution ::
  "'a InstanceEnv \<Rightarrow> ('a, 'u) PythonInstance \<Rightarrow> ('a, 'u) PythonInstance worker_end" where
  "actual_execution self s =
     (case queue s of
        [] \<Rightarrow> Blocked s
      | InternalQuitMessage _ # rest \<Rightarrow>
          Exited (s\<lparr>queue := rest, execution_thread_alive := False\<rparr>)
      | Item msg # rest \<Rightarrow> actual_execution self (execute_message self msg (s\<lparr>queue := rest\<rparr>)))"
  by pat_completeness auto
termination
  by (relation "measure (\<lambda>(self, s). length (queue s))") (auto simp: execute_message_queue)

declare actual_execution.simps [simp del]

text \<open>
  Threads interleave: a schedule is the order in which blocking \<^verbatim>\<open>put\<close> calls of the
  producers and passes of the worker's loop complete. A schedule cannot run (\<^verbatim>\<open>None\<close>)
  when it asks for a step that is suspended at that point.
\<close>

datatype 'a action = Put "'a queue_item" | Pass

fun step ::
  "'a InstanceEnv \<Rightarrow> 'a action \<Rightarrow> ('a, 'u) PythonInstance \<Rightarrow> ('a, 'u) PythonInstance option" where
  "step self (Put x) s = queue_put self x s"
| "step self Pass s = worker_pass self s"

fun run_schedule ::
  "'a InstanceEnv \<Rightarrow> 'a action list \<Rightarrow> ('a, 'u) PythonInstance \<Rightarrow>
   ('a, 'u) PythonInstance option" where
  "run_schedule self [] s = Some s"
| "run_schedule self (a # as) s =
     (case step self a s of None \<Rightarrow> None | Some s1 \<Rightarrow> run_schedule self as s1)"

fun puts_of :: "'a action list \<Rightarrow> 'a queue_item list" where
  "puts_of [] = []"
| "puts_of (Put x # as) = x # puts_of as"
| "puts_of (Pass # as) = puts_of as"

fun passes_of :: "'a action list \<Rightarrow> nat" where
  "passes_of [] = 0"
| "passes_of (Put x # as) = passes_of as"
| "passes_of (Pass # as) = Suc (passes_of as)"

text \<open>
  \<^verbatim>\<open>join\<close>: its first statement is the blocking \<^verbatim>\<open>put\<close> of
  \<^verbatim>\<open>InternalQuitMessage(True)\<close>, the action \<open>Put (InternalQuitMessage True)\<close> of a
  schedule; its second, \<^verbatim>\<open>execution_thread.join()\<close>, returns in a state in which the
  thread has ended.
\<close>

definition join_can_return :: "('a, 'u) PythonInstance \<Rightarrow> bool" where
  "join_can_return s = (\<not> execution_thread_alive s)"

text \<open>The loop body applied to a list of messages, one after the other.\<close>

definition execute_all ::
  "'a InstanceEnv \<Rightarrow> 'a InternalMessage list \<Rightarrow> ('a, 'u) PythonInstance \<Rightarrow>
   ('a, 'u) PythonInstance" where
  "execute_all self msgs s = foldl (\<lambda>s1 msg. execute_message self msg s1) s msgs"

section \<open>Metrics and status\<close>

type_synonym MetricsData = "string \<rightharpoonup> MetricData"

definition add_system_metrics :: "string \<Rightarrow> real \<Rightarrow> MetricsData \<Rightarrow> MetricsData" where
  "add_system_metrics metric_name v metrics =
     metrics(metric_name \<mapsto>
       \<lparr> metric_count = v, metric_sum = v, metric_min = 0, metric_max = v \<rparr>)"

text \<open>
  Division of floats raises \<^verbatim>\<open>ZeroDivisionError\<close> on a zero divisor. The average
  latency is the conditional expression that \<^verbatim>\<open>get_metrics\<close> and
  \<^verbatim>\<open>get_function_status\<close> both evaluate.
\<close>

definition py_truediv :: "real \<Rightarrow> real \<Rightarrow> exn + real" where
  "py_truediv a b = (if b = 0 then Inl (Exception ''ZeroDivisionError'') else Inr (a / b))"

definition average_latency :: "labelvalues \<Rightarrow> Stats \<Rightarrow> exn + real" where
  "average_latency l st =
     (if stats_process_latency_ms_count st l \<le> 0 then Inr 0
      else py_truediv (stats_process_latency_ms_sum st l) (stats_process_latency_ms_count st l))"

definition get_metrics ::
  "'a InstanceEnv \<Rightarrow> ('a, 'u) PythonInstance \<Rightarrow> exn + MetricsData" where
  "get_metrics self s =
     (let l = metrics_labels self;
          st = stats s;
          metrics = contextimpl_get_metrics (contextimpl s);
          metrics = add_system_metrics ''__total_processed__'' (stat_total_processed st l) metrics;
          metrics = add_system_metrics ''__total_successfully_processed__''
                      (stat_total_processed_successfully st l) metrics;
          metrics = add_system_metrics ''__total_system_exceptions__''
                      (stat_total_sys_exceptions st l) metrics;
          metrics = add_system_metrics ''__total_user_exceptions__''
                      (stat_total_user_exceptions st l) metrics
      in case average_latency l st of
           Inl e \<Rightarrow> Inl e
         | Inr avg \<Rightarrow> Inr (add_system_metrics ''__avg_latency_ms__'' avg metrics))"

definition reset_metrics ::
  "'a InstanceEnv \<Rightarrow> ('a, 'u) PythonInstance \<Rightarrow> ('a, 'u) PythonInstance" where
  "reset_metrics self s =
     (let s1 = s\<lparr>stats := reset (metrics_labels self) (stats s)\<rparr>
      in s1\<lparr>contextimpl := contextimpl_reset_metrics (contextimpl s1)\<rparr>)"

text \<open>When \<^verbatim>\<open>get_metrics\<close> raises, \<^verbatim>\<open>get_and_reset_metrics\<close> does not come to the reset.\<close>

definition get_and_reset_metrics ::
  "'a InstanceEnv \<Rightarrow> ('a, 'u) PythonInstance \<Rightarrow>
   (exn + MetricsData) \<times> ('a, 'u) PythonInstance" where
  "get_and_reset_metrics self s =
     (case get_metrics self s of
        Inl e \<Rightarrow> (Inl e, s)
      | Inr metrics \<Rightarrow> (Inr metrics, reset_metrics self s))"

text \<open>
  The status report. \<^verbatim>\<open>long\<close> is the Python 2 builtin, and the report is modelled as
  Python 2 runs it. An entry of the two exception lists is the pair of
  \<^verbatim>\<open>exceptionString\<close> and \<^verbatim>\<open>msSinceEpoch\<close>.
\<close>

record FunctionStatus =
  running :: bool
  numProcessed :: int
  numSuccessfullyProcessed :: int
  numUserExceptions :: int
  instanceId :: string
  latestUserExceptions :: "exception_record list"
  numSystemExceptions :: int
  latestSystemExceptions :: "exception_record list"
  averageLatency :: real
  lastInvocationTime :: int

definition get_function_status ::
  "'a InstanceEnv \<Rightarrow> ('a, 'u) PythonInstance \<Rightarrow> exn + FunctionStatus" where
  "get_function_status self s =
     (let l = metrics_labels self;
          st = stats s
      in case average_latency l st of
           Inl e \<Rightarrow> Inl e
         | Inr avg \<Rightarrow>
             Inr \<lparr> running = True,
                   numProcessed = py_long (stat_total_processed st l),
                   numSuccessfullyProcessed = py_long (stat_total_processed_successfully st l),
                   numUserExceptions = py_long (stat_total_user_exceptions st l),
                   instanceId = instance_id (instance_config self),
                   latestUserExceptions = latest_user_exception st,
                   numSystemExceptions = py_long (stat_total_sys_exceptions st l),
                   latestSystemExceptions = latest_sys_exception st,
                   averageLatency = avg,
                   lastInvocationTime = py_long (last_invocation_time st) \<rparr>)"

text \<open>The division is never reached with a zero divisor: the two reports always return.\<close>

lemma average_latency_returns:
  "average_latency l st =
     Inr (if stats_process_latency_ms_count st l \<le> 0 then 0
          else stats_process_latency_ms_sum st l / stats_process_latency_ms_count st l)"
  by (simp add: average_latency_def py_truediv_def)

lemma get_function_status_returns:
  "get_function_status self s =
     Inr \<lparr> running = True,
           numProcessed = py_long (stat_total_processed (stats s) (metrics_labels self)),
           numSuccessfullyProcessed =
             py_long (stat_total_processed_successfully (stats s) (metrics_labels self)),
           numUserExceptions =
             py_long (stat_total_user_exceptions (stats s) (metrics_labels self)),
           instanceId = instance_id (instance_config self),
           latestUserExceptions = latest_user_exception (stats s),
           numSystemExceptions =
             py_long (stat_total_sys_exceptions (stats s) (metrics_labels self)),
           latestSystemExceptions = latest_sys_exception (stats s),
           averageLatency =
             (if stats_process_latency_ms_count (stats s) (metrics_labels self) \<le> 0 then 0
              else stats_process_latency_ms_sum (stats s) (metrics_labels self)
                   / stats_process_latency_ms_count (stats s) (metrics_labels self)),
           lastInvocationTime = py_long (last_invocation_time (stats s)) \<rparr>"
  by (simp add: get_function_status_def Let_def average_latency_returns)

lemma get_metrics_returns:
  "\<exists>metrics. get_metrics self s = Inr metrics
     \<and> metrics ''__total_processed__'' =
         Some \<lparr> metric_count = stat_total_processed (stats s) (metrics_labels self),
                metric_sum = stat_total_processed (stats s) (metrics_labels self),
                metric_min = 0,
                metric_max = stat_total_processed (stats s) (metrics_labels self) \<rparr>
     \<and> metrics ''__avg_latency_ms__'' =
         Some \<lparr> metric_count =
                  (if stats_process_latency_ms_count (stats s) (metrics_labels self) \<le> 0 then 0
                   else stats_process_latency_ms_sum (stats s) (metrics_labels self)
                        / stats_process_latency_ms_count (stats s) (metrics_labels self)),
                metric_sum =
                  (if stats_process_latency_ms_count (stats s) (metrics_labels self) \<le> 0 then 0
                   else stats_process_latency_ms_sum (stats s) (metrics_labels self)
                        / stats_process_latency_ms_count (stats s) (metrics_labels self)),
                metric_min = 0,
                metric_max =
                  (if stats_process_latency_ms_count (stats s) (metrics_labels self) \<le> 0 then 0
                   else stats_process_latency_ms_sum (stats s) (metrics_labels self)
                        / stats_process_latency_ms_count (stats s) (metrics_labels self)) \<rparr>"
  by (simp add: get_metrics_def Let_def average_latency_returns add_system_metrics_def)

section \<open>Effects on the transport\<close>

text \<open>
  The state an outcome carries, and the two transport effects of the instance: the
  acknowledgments issued and the messages handed to the publisher.
\<close>

fun outcome_state :: "'s outcome \<Rightarrow> 's" where
  "outcome_state (Returns s) = s"
| "outcome_state (Raises e s) = s"

definition transport_effects ::
  "('a, 'u) PythonInstance \<Rightarrow> (Consumer \<times> Message) list \<times> SentMessage list" where
  "transport_effects s = (acknowledged s, sent s)"

lemma transport_effects_time_time:
  "transport_effects (snd (time_time self s)) = transport_effects s"
  by (simp add: transport_effects_def time_time_def)

lemma transport_effects_stats:
  "transport_effects (s\<lparr>stats := v\<rparr>) = transport_effects s"
  by (simp add: transport_effects_def)

lemma transport_effects_call_user_function:
  "transport_effects (snd (call_user_function x s)) = transport_effects s"
  by (simp add: transport_effects_def call_user_function_def split_def Let_def split: option.split)

lemma transport_effects_user_function_returned:
  "transport_effects (user_function_returned self t s) = transport_effects s"
  by (simp add: user_function_returned_def split_def Let_def transport_effects_stats
        transport_effects_time_time)

lemma transport_effects_user_function_raised:
  "transport_effects (user_function_raised self e s) = transport_effects s"
  by (simp add: user_function_raised_def split_def Let_def transport_effects_stats
        transport_effects_time_time)

lemma transport_effects_uncaught_exception:
  "transport_effects (uncaught_exception self e s) = transport_effects s"
  by (simp add: uncaught_exception_def split_def Let_def transport_effects_stats
        transport_effects_time_time)

lemma transport_effects_invoke_user_logic:
  "transport_effects (snd (snd (invoke_user_logic self x s))) = transport_effects s"
  by (simp add: invoke_user_logic_def split_def Let_def transport_effects_stats
        transport_effects_time_time transport_effects_call_user_function
        transport_effects_user_function_returned transport_effects_user_function_raised
        split: sum.split)

lemma transport_effects_setup_output_serde:
  "transport_effects (outcome_state (setup_output_serde self s)) = transport_effects s"
  by (simp add: setup_output_serde_def Let_def transport_effects_def split: option.split)

lemma transport_effects_setup_producer:
  "transport_effects (outcome_state (setup_producer self s)) = transport_effects s"
  by (simp add: setup_producer_def Let_def transport_effects_def split: option.split)

text \<open>
  The first branch of \<^verbatim>\<open>process_result\<close>: whatever holds of the serialization step
  and of a raise holds of the branch, since the two set-up steps leave the transport
  alone.
\<close>

lemma publish_branch_effects:
  assumes "\<And>s2. P (transport_effects s2) (serialize_and_send self out msg s2)"
      and "\<And>e s2. P (transport_effects s2) (Raises e s2)"
  shows "P (transport_effects s)
     (and_then (if output_serde s = None then setup_output_serde self s else Returns s)
        (\<lambda>s1. and_then (if producer s1 = None then setup_producer self s1 else Returns s1)
           (serialize_and_send self out msg)))"
proof -
  have inner: "P (transport_effects s1)
      (and_then (if producer s1 = None then setup_producer self s1 else Returns s1)
           (serialize_and_send self out msg))" for s1
  proof (cases "producer s1")
    case None
    show ?thesis
    proof (cases "setup_producer self s1")
      case (Returns s2)
      with None show ?thesis
        using assms(1) [of s2] transport_effects_setup_producer [of self s1] by simp
    next
      case (Raises e s2)
      with None show ?thesis
        using assms(2) [of s2 e] transport_effects_setup_producer [of self s1] by simp
    qed
  next
    case (Some p)
    then show ?thesis using assms(1) by simp
  qed
  show ?thesis
  proof (cases "output_serde s")
    case None
    show ?thesis
    proof (cases "setup_output_serde self s")
      case (Returns s1)
      with None show ?thesis
        using inner [of s1] transport_effects_setup_output_serde [of self s] by simp
    next
      case (Raises e s1)
      with None show ?thesis
        using assms(2) [of s1 e] transport_effects_setup_output_serde [of self s] by simp
    qed
  next
    case (Some sd)
    then show ?thesis using inner by simp
  qed
qed


lemma b64_alphabet_ascii: "i < 64 \<Longrightarrow> (of_char (b64_alphabet ! i) :: nat) < 128"
proof -
  have "list_all (\<lambda>c. (of_char c :: nat) < 128) b64_alphabet"
    by (simp add: b64_alphabet_def)
  moreover have "length b64_alphabet = 64"
    by (simp add: b64_alphabet_def)
  ultimately show "i < 64 \<Longrightarrow> (of_char (b64_alphabet ! i) :: nat) < 128"
    by (simp add: list_all_length)
qed

lemma sextet_bound_1: "a < 256 \<Longrightarrow> a div 4 < (64::nat)"
  by simp

lemma sextet_bound_2: "b < 256 \<Longrightarrow> (a mod 4) * 16 + b div 16 < (64::nat)"
proof -
  assume "b < 256"
  then have "a mod 4 < 4" and "b div 16 < 16" by simp_all
  then show ?thesis by arith
qed

lemma sextet_bound_3: "c < 256 \<Longrightarrow> (b mod 16) * 4 + c div 64 < (64::nat)"
proof -
  assume "c < 256"
  then have "b mod 16 < 16" and "c div 64 < 4" by simp_all
  then show ?thesis by arith
qed

lemma b64_groups_ascii:
  "list_all (\<lambda>n. n < 256) ns \<Longrightarrow> list_all (\<lambda>c. (of_char c :: nat) < 128) (b64_groups ns)"
proof (induction ns rule: b64_groups.induct)
  case 1
  then show ?case by simp
next
  case (2 a)
  then show ?case by (auto simp: b64_alphabet_ascii sextet_bound_1)
next
  case (3 a b)
  then show ?case by (auto simp: b64_alphabet_ascii sextet_bound_1 sextet_bound_2)
next
  case (4 a b c rest)
  then show ?case
    by (auto simp: b64_alphabet_ascii sextet_bound_1 sextet_bound_2 sextet_bound_3)
qed

lemma urlsafe_b64encode_ascii:
  "list_all (\<lambda>c. (of_char c :: nat) < 128) (urlsafe_b64encode b)"
proof -
  have "list_all (\<lambda>n. n < 256) (map of_char b :: nat list)"
    by (simp add: list_all_iff)
  then have "list_all (\<lambda>c. (of_char c :: nat) < 128) (b64encode b)"
    unfolding b64encode_def by (rule b64_groups_ascii)
  moreover have "(of_char c :: nat) < 128 \<Longrightarrow> (of_char (urlsafe_translation c) :: nat) < 128" for c
    by (simp add: urlsafe_translation_def)
  ultimately show ?thesis
    by (simp add: urlsafe_b64encode_def list_all_iff)
qed

lemma base64ify_bytes: "base64ify py3 (Bytes b) = Inr (urlsafe_b64encode b)"
  by (simp add: base64ify_def Let_def decode_ascii_def urlsafe_b64encode_ascii)

text \<open>
  The two properties a published message is to carry for the work item \<open>msg\<close>: the
  topic, and the URL-safe base64 encoding of the message id bytes.
\<close>

definition provenance :: "'a InternalMessage \<Rightarrow> (string \<times> string) list" where
  "provenance msg =
     [(''__pfn_input_topic__'', topic msg),
      (''__pfn_input_msg_id__'', urlsafe_b64encode (message_id (message msg)))]"

text \<open>
  An outcome in which the output \<open>out\<close> went to \<^verbatim>\<open>send_async\<close>: the call returned,
  from a state \<open>s2\<close> with the transport effects \<open>te\<close>, with the bytes that the output
  serde of \<open>s2\<close> gave for \<open>out\<close>, the properties of \<open>msg\<close>, and the callback bound to the
  consumer and the message of \<open>msg\<close>.
\<close>

definition published ::
  "'a \<Rightarrow> 'a InternalMessage \<Rightarrow> (Consumer \<times> Message) list \<times> SentMessage list \<Rightarrow>
   ('a, 'u) PythonInstance outcome \<Rightarrow> bool" where
  "published out msg te r =
     (\<exists>s2 sd output_bytes.
        r = Returns (send_async output_bytes (consumer msg) (message msg) (provenance msg) s2)
        \<and> transport_effects s2 = te
        \<and> output_serde s2 = Some sd
        \<and> serialize sd out = Inr (Some output_bytes))"

lemma serialize_and_send_cases:
  "published out msg (transport_effects s) (serialize_and_send self out msg s)
   \<or> transport_effects (outcome_state (serialize_and_send self out msg s)) =
       transport_effects s"
  by (auto simp: serialize_and_send_def published_def provenance_def base64ify_bytes
        split: option.split sum.split)

text \<open>
  The condition on the sink topic that \<^verbatim>\<open>process_result\<close> and \<^verbatim>\<open>setup_producer\<close>
  test.
\<close>

definition sink_configured :: "'a InstanceEnv \<Rightarrow> bool" where
  "sink_configured self =
     (let sk = sink (function_details (instance_config self))
      in sink_topic sk \<noteq> None \<and> length (the (sink_topic sk)) > 0)"

lemma process_result_cases:
  "(out \<noteq> None \<and> sink_configured self
      \<and> published (the out) msg (transport_effects s) (process_result self out msg s))
   \<or> (\<not> (out \<noteq> None \<and> sink_configured self) \<and> auto_ack self \<and> atleast_once self
      \<and> process_result self out msg s = Returns (acknowledge (consumer msg) (message msg) s))
   \<or> transport_effects (outcome_state (process_result self out msg s)) = transport_effects s"
proof (cases "out \<noteq> None \<and> sink_configured self")
  case True
  have "published (the out) msg (transport_effects s)
          (and_then (if output_serde s = None then setup_output_serde self s else Returns s)
            (\<lambda>s1. and_then (if producer s1 = None then setup_producer self s1 else Returns s1)
               (serialize_and_send self (the out) msg)))
        \<or> transport_effects (outcome_state
          (and_then (if output_serde s = None then setup_output_serde self s else Returns s)
            (\<lambda>s1. and_then (if producer s1 = None then setup_producer self s1 else Returns s1)
               (serialize_and_send self (the out) msg)))) = transport_effects s"
  proof (rule publish_branch_effects
          [where P = "\<lambda>te r. published (the out) msg te r
                             \<or> transport_effects (outcome_state r) = te"])
    fix s2 :: "('a, 'b) PythonInstance"
    show "published (the out) msg (transport_effects s2)
            (serialize_and_send self (the out) msg s2)
          \<or> transport_effects (outcome_state (serialize_and_send self (the out) msg s2)) =
            transport_effects s2"
      using serialize_and_send_cases [of "the out" msg s2 self] by blast
  next
    fix e and s2 :: "('a, 'b) PythonInstance"
    show "published (the out) msg (transport_effects s2) (Raises e s2)
          \<or> transport_effects (outcome_state (Raises e s2)) = transport_effects s2"
      by simp
  qed
  with True show ?thesis
    by (simp add: process_result_def sink_configured_def Let_def)
next
  case False
  then show ?thesis
    by (auto simp: process_result_def sink_configured_def Let_def)
qed

lemma transport_effects_send_async:
  "transport_effects (send_async b c m props s) =
     (fst (transport_effects s),
      snd (transport_effects s) @
        [\<lparr> content = b, properties = props, callback_consumer = c,
           callback_orig_message = m \<rparr>])"
  by (simp add: transport_effects_def send_async_def)

lemma transport_effects_acknowledge:
  "transport_effects (acknowledge c m s) =
     (fst (transport_effects s) @ [(c, m)], snd (transport_effects s))"
  by (simp add: transport_effects_def acknowledge_def)

text \<open>What one pass of the loop body does to the transport.\<close>

lemma route_result_cases:
  "(\<exists>output_bytes. out \<noteq> None \<and> sink_configured self \<and>
      transport_effects (route_result self out msg s) =
        (acknowledged s,
         sent s @ [\<lparr> content = output_bytes, properties = provenance msg,
                     callback_consumer = consumer msg,
                     callback_orig_message = message msg \<rparr>]))
   \<or> (auto_ack self \<and> atleast_once self \<and> \<not> (out \<noteq> None \<and> sink_configured self) \<and>
       transport_effects (route_result self out msg s) =
         (acknowledged s @ [(consumer msg, message msg)], sent s))
   \<or> transport_effects (route_result self out msg s) = transport_effects s"
proof -
  consider
    (pub) "out \<noteq> None" "sink_configured self"
      "published (the out) msg (transport_effects s) (process_result self out msg s)"
  | (ack) "\<not> (out \<noteq> None \<and> sink_configured self)" "auto_ack self" "atleast_once self"
      "process_result self out msg s = Returns (acknowledge (consumer msg) (message msg) s)"
  | (none) "transport_effects (outcome_state (process_result self out msg s)) =
      transport_effects s"
    using process_result_cases [of out self msg s] by blast
  then show ?thesis
  proof cases
    case pub
    then obtain s2 sd output_bytes where
      r: "process_result self out msg s =
            Returns (send_async output_bytes (consumer msg) (message msg) (provenance msg) s2)"
      and te: "transport_effects s2 = transport_effects s"
      by (auto simp: published_def)
    from te have as: "acknowledged s2 = acknowledged s" "sent s2 = sent s"
      by (simp_all add: transport_effects_def)
    have "transport_effects (route_result self out msg s) =
            (acknowledged s,
             sent s @ [\<lparr> content = output_bytes, properties = provenance msg,
                         callback_consumer = consumer msg,
                         callback_orig_message = message msg \<rparr>])"
      by (simp add: route_result_def r transport_effects_stats)
         (simp add: transport_effects_def send_async_def as)
    with pub(1,2) show ?thesis by blast
  next
    case ack
    then show ?thesis
      by (simp add: route_result_def transport_effects_stats transport_effects_acknowledge)
         (simp add: transport_effects_def)
  next
    case none
    then show ?thesis
      by (cases "process_result self out msg s")
         (simp_all add: route_result_def transport_effects_stats
            transport_effects_uncaught_exception)
  qed
qed

lemma transport_effects_contextimpl:
  "transport_effects (s\<lparr>contextimpl := v\<rparr>) = transport_effects s"
  by (simp add: transport_effects_def)

lemma execute_message_cases:
  "(\<exists>output_bytes. sink_configured self \<and>
      transport_effects (execute_message self msg s) =
        (acknowledged s,
         sent s @ [\<lparr> content = output_bytes, properties = provenance msg,
                     callback_consumer = consumer msg,
                     callback_orig_message = message msg \<rparr>]))
   \<or> (auto_ack self \<and> atleast_once self \<and>
       transport_effects (execute_message self msg s) =
         (acknowledged s @ [(consumer msg, message msg)], sent s))
   \<or> transport_effects (execute_message self msg s) = transport_effects s"
proof (cases "deserialize (serde msg) (data (message msg))")
  case (Inl e)
  then show ?thesis
    by (simp add: execute_message_def transport_effects_uncaught_exception)
next
  case (Inr input_object)
  define s1 where "s1 = s\<lparr>contextimpl :=
      set_current_message_context (message_id (message msg)) (topic msg) (contextimpl s)\<rparr>"
  obtain ok out s2 where inv: "invoke_user_logic self input_object s1 = (ok, out, s2)"
    by (cases "invoke_user_logic self input_object s1") auto
  have te2: "transport_effects s2 = transport_effects s"
    using transport_effects_invoke_user_logic [of self input_object s1] inv
    by (simp add: s1_def transport_effects_contextimpl)
  then have as: "acknowledged s2 = acknowledged s" "sent s2 = sent s"
    by (simp_all add: transport_effects_def)
  have ex: "execute_message self msg s = (if ok then route_result self out msg s2 else s2)"
    using Inr inv by (simp add: execute_message_def s1_def [symmetric])
  show ?thesis
  proof (cases ok)
    case True
    then show ?thesis
      using route_result_cases [of out self msg s2] by (simp add: ex as te2) blast
  next
    case False
    then show ?thesis by (simp add: ex te2)
  qed
qed

section \<open>The exception ring\<close>

text \<open>
  A call of one of the two functions that append an exception record, with the
  exception text and the clock value it reads.
\<close>

datatype exception_call = Add_user_exception string real | Add_sys_exception string real

fun apply_exception_call :: "exception_call \<Rightarrow> Stats \<Rightarrow> Stats" where
  "apply_exception_call (Add_user_exception exc_text now) st = add_user_exception exc_text now st"
| "apply_exception_call (Add_sys_exception exc_text now) st = add_sys_exception exc_text now st"

fun appended_record :: "exception_call \<Rightarrow> exception_record" where
  "appended_record (Add_user_exception exc_text now) = (exc_text, py_int (now * 1000))"
| "appended_record (Add_sys_exception exc_text now) = (exc_text, py_int (now * 1000))"

definition apply_exception_calls :: "exception_call list \<Rightarrow> Stats \<Rightarrow> Stats" where
  "apply_exception_calls calls st = foldl (\<lambda>st1 c. apply_exception_call c st1) st calls"

lemma latest_sys_exception_mutate:
  "latest_sys_exception (mutate_latest_sys_exception f st) = f (latest_sys_exception st)"
  by (simp add: latest_sys_exception_def mutate_latest_sys_exception_def split: option.split)

lemma latest_user_exception_mutate:
  "latest_user_exception (mutate_latest_sys_exception f st) = latest_user_exception st"
  by (simp add: latest_user_exception_def mutate_latest_sys_exception_def split: option.split)

lemma latest_sys_exception_add_user:
  "latest_sys_exception (add_user_exception x now st) =
     (let l = latest_sys_exception st @ [(x, py_int (now * 1000))]
      in if length l > 10 then tl l else l)"
  by (simp add: add_user_exception_def Let_def latest_sys_exception_mutate)

lemma latest_sys_exception_add_sys:
  "latest_sys_exception (add_sys_exception x now st) =
     (let l = latest_sys_exception st @ [(x, py_int (now * 1000))]
      in if length l > 10 then tl l else l)"
  by (simp add: add_sys_exception_def Let_def latest_sys_exception_mutate)

lemma latest_sys_exception_call:
  "latest_sys_exception (apply_exception_call c st) =
     (let l = latest_sys_exception st @ [appended_record c]
      in if length l > 10 then tl l else l)"
  by (cases c) (simp_all add: latest_sys_exception_add_user latest_sys_exception_add_sys)

lemma ring_step:
  assumes "length l \<le> 10"
  shows "(let l1 = l @ [r] in if length l1 > 10 then tl l1 else l1)
         = drop (length (l @ [r]) - 10) (l @ [r])"
proof (cases "length l = 10")
  case True
  then have "drop (length (l @ [r]) - 10) (l @ [r]) = drop 1 (l @ [r])" by simp
  also have "\<dots> = tl (l @ [r])" by (simp only: One_nat_def drop_Suc drop_0)
  finally show ?thesis using True by (simp add: Let_def)
next
  case False
  with assms have "length l < 10" by simp
  then show ?thesis by (simp add: Let_def)
qed

lemma keep_last_snoc:
  "drop (length (drop (length xs - n) xs @ [r]) - n) (drop (length xs - n) xs @ [r])
     = drop (length (xs @ [r]) - n) (xs @ [r])"
proof (cases "length xs \<le> n")
  case True
  then show ?thesis by simp
next
  case False
  then have "length xs - n + 1 = length xs + 1 - n" by simp
  with False show ?thesis by (simp add: min_def)
qed

lemma ring_calls:
  assumes "length (latest_sys_exception st) \<le> 10"
  shows "latest_sys_exception (apply_exception_calls calls st) =
           drop (length (latest_sys_exception st @ map appended_record calls) - 10)
             (latest_sys_exception st @ map appended_record calls)"
proof (induction calls rule: rev_induct)
  case Nil
  from assms show ?case by (simp add: apply_exception_calls_def)
next
  case (snoc c calls)
  let ?all = "latest_sys_exception st @ map appended_record calls"
  let ?l = "latest_sys_exception (apply_exception_calls calls st)"
  have len: "length ?l \<le> 10" using snoc.IH by simp
  have "latest_sys_exception (apply_exception_calls (calls @ [c]) st) =
          drop (length (?l @ [appended_record c]) - 10) (?l @ [appended_record c])"
    using ring_step [OF len] by (simp add: apply_exception_calls_def latest_sys_exception_call)
  also have "\<dots> = drop (length (?all @ [appended_record c]) - 10) (?all @ [appended_record c])"
    unfolding snoc.IH by (rule keep_last_snoc)
  finally show ?case by simp
qed

text \<open>
  Claim C8. After more than ten appends to \<^verbatim>\<open>latest_sys_exception\<close>, the list that
  \<^verbatim>\<open>add_user_exception\<close> and \<^verbatim>\<open>add_sys_exception\<close> both append to, made in any order
  on a list that holds at most ten records, the list holds exactly the ten records
  appended last, in the order of their appends: the oldest are evicted first. After
  every append the list has at most ten records.
\<close>

theorem exception_ring_keeps_last_ten:
  assumes "length (latest_sys_exception st) \<le> 10" and "length calls > 10"
  shows "latest_sys_exception (apply_exception_calls calls st) =
           drop (length calls - 10) (map appended_record calls)
       \<and> length (latest_sys_exception (apply_exception_calls calls st)) = 10
       \<and> (\<forall>n. length (latest_sys_exception (apply_exception_calls (take n calls) st)) \<le> 10)"
proof -
  have "latest_sys_exception (apply_exception_calls calls st) =
          drop (length calls - 10) (map appended_record calls)"
    using assms by (simp add: ring_calls)
  moreover have "length (latest_sys_exception (apply_exception_calls cs st)) \<le> 10" for cs
    using assms(1) by (simp add: ring_calls)
  ultimately show ?thesis using assms(2) by simp
qed

theorem exception_ring_keeps_last_ten_witness:
  "length (latest_sys_exception Stats_new) \<le> 10
   \<and> length [Add_user_exception ''e0'' 0, Add_sys_exception ''e1'' 1,
        Add_user_exception ''e2'' 2, Add_sys_exception ''e3'' 3, Add_user_exception ''e4'' 4,
        Add_sys_exception ''e5'' 5, Add_user_exception ''e6'' 6, Add_sys_exception ''e7'' 7,
        Add_user_exception ''e8'' 8, Add_sys_exception ''e9'' 9,
        Add_user_exception ''e10'' 10] > 10
   \<and> latest_sys_exception (apply_exception_calls
        [Add_user_exception ''e0'' 0, Add_sys_exception ''e1'' 1,
         Add_user_exception ''e2'' 2, Add_sys_exception ''e3'' 3, Add_user_exception ''e4'' 4,
         Add_sys_exception ''e5'' 5, Add_user_exception ''e6'' 6, Add_sys_exception ''e7'' 7,
         Add_user_exception ''e8'' 8, Add_sys_exception ''e9'' 9,
         Add_user_exception ''e10'' 10] Stats_new)
       = [(''e1'', 1000), (''e2'', 2000), (''e3'', 3000), (''e4'', 4000), (''e5'', 5000),
          (''e6'', 6000), (''e7'', 7000), (''e8'', 8000), (''e9'', 9000), (''e10'', 10000)]"
proof -
  have h: "length (latest_sys_exception Stats_new) \<le> 10"
    by (simp add: latest_sys_exception_def Stats_new_def)
  show ?thesis
    using h exception_ring_keeps_last_ten [OF h, of
        "[Add_user_exception ''e0'' 0, Add_sys_exception ''e1'' 1,
         Add_user_exception ''e2'' 2, Add_sys_exception ''e3'' 3, Add_user_exception ''e4'' 4,
         Add_sys_exception ''e5'' 5, Add_user_exception ''e6'' 6, Add_sys_exception ''e7'' 7,
         Add_user_exception ''e8'' 8, Add_sys_exception ''e9'' 9,
         Add_user_exception ''e10'' 10]"]
    by (simp add: py_int_def)
qed

section \<open>An example instance\<close>

text \<open>
  A function that appends an exclamation mark, raises on \<^verbatim>\<open>boom\<close> and filters
  \<^verbatim>\<open>skip\<close>, on an instance with the sink topic \<^verbatim>\<open>out\<close>; the guarantee and the
  auto-ack flag are parameters. The concrete evaluations below run on it.
\<close>

text \<open>The identity serializer that \<^verbatim>\<open>DEFAULT_SERIALIZER\<close> names, on strings.\<close>

definition IdentitySerDe :: "string SerDe" where
  "IdentitySerDe = \<lparr> serialize = (\<lambda>x. Inr (Some x)), deserialize = (\<lambda>b. Inr b) \<rparr>"

definition example_env :: "ProcessingGuarantees \<Rightarrow> bool \<Rightarrow> string InstanceEnv" where
  "example_env guarantee auto =
     \<lparr> instance_config =
         \<lparr> instance_id = ''0'', function_id = ''f-1'', function_version = ''v1'',
           function_details =
             \<lparr> tenant = ''public'', namespace = ''default'', name = ''exclaim'',
               processingGuarantees = guarantee, autoAck = auto,
               sink = \<lparr> sink_topic = Some ''out'', sink_serDeClassName = None \<rparr> \<rparr>,
           max_buffered_tuples = 2 \<rparr>,
       atmost_once = (guarantee = ATMOST_ONCE),
       atleast_once = (guarantee = ATLEAST_ONCE),
       auto_ack = auto,
       expected_healthcheck_interval = 30,
       metrics_labels = [''public'', ''default'', ''exclaim'', ''0''],
       PY3 = False,
       clock = (\<lambda>n. 100 + real n),
       import_class = (\<lambda>n. if n = ''serde.IdentitySerDe'' then Some IdentitySerDe else None),
       create_producer_error = (\<lambda>_. None) \<rparr>"

definition example_function :: "string \<Rightarrow> exn + string option" where
  "example_function x =
     (if x = ''boom'' then Inl (Exception ''ValueError: boom'')
      else if x = ''skip'' then Inr None
      else Inr (Some (x @ ''!'')))"

definition example_instance :: "(string, unit) PythonInstance" where
  "example_instance =
     \<lparr> queue = [], execution_thread_alive = True, output_serde = None,
       function_class = None, function_purefunction = Some example_function,
       producer = None,
       contextimpl = \<lparr> current_message_id = None, current_topic = None,
                       user_metrics = Map.empty \<rparr>,
       stats = Stats_new, last_health_check_ts = 100, ticks = 0,
       acknowledged = [], sent = [], timers = [], killed = False \<rparr>"

definition example_message :: "string \<Rightarrow> string InternalMessage" where
  "example_message payload =
     \<lparr> message = \<lparr> data = payload, message_id = ''msg-1'' \<rparr>, topic = ''in'',
       serde = IdentitySerDe, consumer = \<lparr> consumer_topic = ''in'' \<rparr> \<rparr>"

text \<open>Three encodings, the second with both translated characters.\<close>

lemma urlsafe_b64encode_msg_1: "urlsafe_b64encode ''msg-1'' = ''bXNnLTE=''"
  by (simp add: urlsafe_b64encode_def b64encode_def b64_alphabet_def urlsafe_translation_def)

lemma urlsafe_b64encode_translated: "urlsafe_b64encode [CHR 0xfb, CHR 0xff] = ''-_8=''"
  by (simp add: urlsafe_b64encode_def b64encode_def b64_alphabet_def urlsafe_translation_def)

lemma urlsafe_b64encode_foobar: "urlsafe_b64encode ''foobar'' = ''Zm9vYmFy''"
  by (simp add: urlsafe_b64encode_def b64encode_def b64_alphabet_def urlsafe_translation_def)

lemmas example_defs = example_env_def example_instance_def example_message_def
  example_function_def IdentitySerDe_def

lemmas worker_defs = execute_message_def invoke_user_logic_def call_user_function_def
  user_function_returned_def user_function_raised_def uncaught_exception_def route_result_def
  process_result_def setup_output_serde_def setup_producer_def serialize_and_send_def
  send_async_def acknowledge_def time_time_def set_current_message_context_def
  DEFAULT_SERIALIZER_def

text \<open>A serializer that returns \<^verbatim>\<open>None\<close> for every object.\<close>

definition null_serde :: "string SerDe" where
  "null_serde = \<lparr> serialize = (\<lambda>x. Inr None), deserialize = (\<lambda>b. Inr b) \<rparr>"

text \<open>
  The example instance after two passes of the loop body, one that publishes and one
  on which the user logic raises; another instance's label tuple has a count of its own.
\<close>

definition example_busy_instance :: "(string, unit) PythonInstance" where
  "example_busy_instance =
     execute_all (example_env ATLEAST_ONCE True)
       [example_message ''hello'', example_message ''boom'']
       (example_instance\<lparr>stats := Stats_new\<lparr>stat_total_processed :=
          (\<lambda>l. if l = [''public'', ''default'', ''other'', ''1''] then 7 else 0)\<rparr>\<rparr>)"

lemmas stats_defs = Stats_new_def inc_def observe_def add_user_exception_def
  add_sys_exception_def mutate_latest_sys_exception_def latest_sys_exception_def
  latest_user_exception_def last_invocation_time_def py_int_def py_long_def

section \<open>Provenance of published messages\<close>

text \<open>
  Claim C10. \<^verbatim>\<open>base64ify\<close> of the serialized message id is its URL-safe base64
  encoding, under either interpreter version and without raising. One pass of the loop
  body hands at most one message to the publisher, and that message carries exactly the
  two properties \<^verbatim>\<open>__pfn_input_topic__\<close>, the topic of the work item, and
  \<^verbatim>\<open>__pfn_input_msg_id__\<close>, the URL-safe base64 encoding of the message id bytes of the
  source message.
\<close>

theorem output_carries_provenance:
  "base64ify (PY3 self) (Bytes (message_id (message msg))) =
     Inr (urlsafe_b64encode (message_id (message msg)))
   \<and> (sent (execute_message self msg s) = sent s
      \<or> (\<exists>output_bytes.
            sent (execute_message self msg s) =
              sent s @ [\<lparr> content = output_bytes,
                          properties =
                            [(''__pfn_input_topic__'', topic msg),
                             (''__pfn_input_msg_id__'',
                              urlsafe_b64encode (message_id (message msg)))],
                          callback_consumer = consumer msg,
                          callback_orig_message = message msg \<rparr>]))"
  using execute_message_cases [of self msg s]
  by (auto simp: transport_effects_def provenance_def base64ify_bytes)

theorem output_carries_provenance_witness:
  "sent (execute_message (example_env ATLEAST_ONCE True) (example_message ''hello'')
          example_instance)
   = [\<lparr> content = ''hello!'',
        properties = [(''__pfn_input_topic__'', ''in''), (''__pfn_input_msg_id__'', ''bXNnLTE='')],
        callback_consumer = \<lparr> consumer_topic = ''in'' \<rparr>,
        callback_orig_message = \<lparr> data = ''hello'', message_id = ''msg-1'' \<rparr> \<rparr>]"
  using output_carries_provenance
    [of "example_env ATLEAST_ONCE True" "example_message ''hello''" example_instance]
  by (simp add: example_defs worker_defs base64ify_bytes urlsafe_b64encode_msg_1 Let_def)

section \<open>Acknowledgment after publishing\<close>

text \<open>
  Claim C2. In at-least-once mode with auto-ack, when a pass of the loop body publishes
  an output, a sink topic is configured, the pass itself acknowledges nothing, and the
  completion callback bound to the published message acknowledges the originating
  message if the publish result is \<^verbatim>\<open>Ok\<close> and acknowledges nothing otherwise.
\<close>

theorem publish_acknowledged_iff_success:
  fixes s :: "('a, 'u) PythonInstance"
  assumes "atleast_once self" and "auto_ack self"
    and "sent (execute_message self msg s) \<noteq> sent s"
  shows "sink_configured self
    \<and> acknowledged (execute_message self msg s) = acknowledged s
    \<and> (\<exists>m. sent (execute_message self msg s) = sent s @ [m]
          \<and> callback_consumer m = consumer msg
          \<and> callback_orig_message m = message msg
          \<and> (\<forall>result sent_message (s1 :: ('a, 'u) PythonInstance).
                acknowledged (done_producing self (callback_consumer m)
                                (callback_orig_message m) result sent_message s1) =
                  (if result = Ok then acknowledged s1 @ [(consumer msg, message msg)]
                   else acknowledged s1)))"
proof -
  from assms(3) execute_message_cases [of self msg s]
  obtain output_bytes where sc: "sink_configured self"
    and te: "transport_effects (execute_message self msg s) =
        (acknowledged s,
         sent s @ [\<lparr> content = output_bytes, properties = provenance msg,
                     callback_consumer = consumer msg,
                     callback_orig_message = message msg \<rparr>])"
    by (auto simp: transport_effects_def)
  have dp: "acknowledged (done_producing self (consumer msg) (message msg) result sm s1) =
      (if result = Ok then acknowledged s1 @ [(consumer msg, message msg)]
       else acknowledged s1)" for result sm and s1 :: "('a, 'u) PythonInstance"
    using assms(1,2) by (simp add: done_producing_def acknowledge_def)
  from te have "acknowledged (execute_message self msg s) = acknowledged s"
    and "sent (execute_message self msg s) =
           sent s @ [\<lparr> content = output_bytes, properties = provenance msg,
                     callback_consumer = consumer msg,
                     callback_orig_message = message msg \<rparr>]"
    by (simp_all add: transport_effects_def)
  with sc dp show ?thesis by simp
qed

theorem publish_acknowledged_iff_success_witness:
  "atleast_once (example_env ATLEAST_ONCE True) \<and> auto_ack (example_env ATLEAST_ONCE True)
   \<and> sent (execute_message (example_env ATLEAST_ONCE True) (example_message ''hello'')
        example_instance) \<noteq> sent example_instance
   \<and> acknowledged (execute_message (example_env ATLEAST_ONCE True) (example_message ''hello'')
        example_instance) = []
   \<and> acknowledged (done_producing (example_env ATLEAST_ONCE True)
        \<lparr> consumer_topic = ''in'' \<rparr> \<lparr> data = ''hello'', message_id = ''msg-1'' \<rparr> Ok ''hello!''
        (execute_message (example_env ATLEAST_ONCE True) (example_message ''hello'')
           example_instance))
       = [(\<lparr> consumer_topic = ''in'' \<rparr>, \<lparr> data = ''hello'', message_id = ''msg-1'' \<rparr>)]
   \<and> acknowledged (done_producing (example_env ATLEAST_ONCE True)
        \<lparr> consumer_topic = ''in'' \<rparr> \<lparr> data = ''hello'', message_id = ''msg-1'' \<rparr> (Failure 4)
        ''hello!''
        (execute_message (example_env ATLEAST_ONCE True) (example_message ''hello'')
           example_instance))
       = []"
proof -
  have h1: "atleast_once (example_env ATLEAST_ONCE True)"
    and h2: "auto_ack (example_env ATLEAST_ONCE True)"
    by (simp_all add: example_env_def)
  have h3: "sent (execute_message (example_env ATLEAST_ONCE True) (example_message ''hello'')
        example_instance) \<noteq> sent example_instance"
    by (simp add: example_defs worker_defs base64ify_bytes Let_def)
  show ?thesis
    using h1 h2 h3 publish_acknowledged_iff_success [OF h1 h2 h3]
    by (simp add: example_defs worker_defs base64ify_bytes Let_def done_producing_def)
qed

section \<open>A serializer that returns None\<close>

text \<open>
  The output serde that \<^verbatim>\<open>process_result\<close> serializes with: the one already set up,
  else the one \<^verbatim>\<open>setup_output_serde\<close> loads.
\<close>

definition resolved_output_serde ::
  "'a InstanceEnv \<Rightarrow> ('a, 'u) PythonInstance \<Rightarrow> 'a SerDe option" where
  "resolved_output_serde self s =
     (case output_serde s of
        Some sd \<Rightarrow> Some sd
      | None \<Rightarrow> output_serde (outcome_state (setup_output_serde self s)))"

lemma output_serde_setup_producer:
  "output_serde (outcome_state (setup_producer self s)) = output_serde s"
  by (simp add: setup_producer_def Let_def split: option.split)

lemma output_serde_serialize_and_send:
  "output_serde (outcome_state (serialize_and_send self out msg s)) = output_serde s"
  by (simp add: serialize_and_send_def send_async_def Let_def split: option.split sum.split)

lemma output_serde_publish_step:
  "output_serde (outcome_state
     (and_then (if producer s1 = None then setup_producer self s1 else Returns s1)
        (serialize_and_send self out msg))) = output_serde s1"
proof (cases "producer s1")
  case None
  then show ?thesis
    using output_serde_setup_producer [of self s1]
    by (cases "setup_producer self s1") (simp_all add: output_serde_serialize_and_send)
next
  case (Some p)
  then show ?thesis by (simp add: output_serde_serialize_and_send)
qed

lemma output_serde_process_result:
  assumes "sink_configured self"
  shows "output_serde (outcome_state (process_result self (Some out) msg s)) =
           resolved_output_serde self s"
proof (cases "output_serde s")
  case None
  then show ?thesis
    using assms
    by (cases "setup_output_serde self s")
       (simp_all add: process_result_def sink_configured_def Let_def resolved_output_serde_def
          output_serde_publish_step)
next
  case (Some sd)
  then show ?thesis
    using assms
    by (simp add: process_result_def sink_configured_def Let_def resolved_output_serde_def
          output_serde_publish_step)
qed

text \<open>
  Claim C6. With a sink topic configured and a non-null output for which the output
  serde returns \<^verbatim>\<open>None\<close>, \<^verbatim>\<open>process_result\<close> hands nothing to the publisher and
  acknowledges nothing, whatever the guarantee and the auto-ack flag are.
\<close>

theorem serializer_none_leaves_message:
  assumes "sink_configured self"
    and "resolved_output_serde self s = Some sd"
    and "serialize sd out = Inr None"
  shows "sent (outcome_state (process_result self (Some out) msg s)) = sent s
       \<and> acknowledged (outcome_state (process_result self (Some out) msg s)) = acknowledged s"
proof -
  let ?r = "process_result self (Some out) msg s"
  have post: "output_serde (outcome_state ?r) = Some sd"
    using assms(1,2) by (simp add: output_serde_process_result)
  have "\<not> published out msg (transport_effects s) ?r"
  proof
    assume "published out msg (transport_effects s) ?r"
    then obtain s2 sd' output_bytes where
      "?r = Returns (send_async output_bytes (consumer msg) (message msg) (provenance msg) s2)"
      and "output_serde s2 = Some sd'" and "serialize sd' out = Inr (Some output_bytes)"
      by (auto simp: published_def)
    with post assms(3) show False by (simp add: send_async_def)
  qed
  then have "transport_effects (outcome_state ?r) = transport_effects s"
    using process_result_cases [of "Some out" self msg s] assms(1) by auto
  then show ?thesis by (simp add: transport_effects_def)
qed

theorem serializer_none_leaves_message_witness:
  "sink_configured (example_env ATLEAST_ONCE True)
   \<and> resolved_output_serde (example_env ATLEAST_ONCE True)
        (example_instance\<lparr>output_serde := Some null_serde\<rparr>) = Some null_serde
   \<and> serialize null_serde ''hello!'' = Inr None
   \<and> sent (outcome_state (process_result (example_env ATLEAST_ONCE True) (Some ''hello!'')
        (example_message ''hello'') (example_instance\<lparr>output_serde := Some null_serde\<rparr>))) = []
   \<and> acknowledged (outcome_state (process_result (example_env ATLEAST_ONCE True) (Some ''hello!'')
        (example_message ''hello'') (example_instance\<lparr>output_serde := Some null_serde\<rparr>))) = []"
proof -
  have h1: "sink_configured (example_env ATLEAST_ONCE True)"
    by (simp add: sink_configured_def example_env_def)
  have h2: "resolved_output_serde (example_env ATLEAST_ONCE True)
        (example_instance\<lparr>output_serde := Some null_serde\<rparr>) = Some null_serde"
    by (simp add: resolved_output_serde_def)
  have h3: "serialize null_serde ''hello!'' = Inr None"
    by (simp add: null_serde_def)
  show ?thesis
    using h1 h2 h3 serializer_none_leaves_message [OF h1 h2 h3, of "example_message ''hello''"]
    by (simp add: example_instance_def)
qed

section \<open>At-most-once acknowledgment\<close>

lemma constructed_modes_exclusive:
  "constructed self \<Longrightarrow> atmost_once self \<Longrightarrow> \<not> atleast_once self"
  by (auto simp: constructed_def Let_def)

text \<open>
  Claim C1, as amended. In at-most-once mode with auto-ack enabled, a listener callback
  whose \<^verbatim>\<open>put\<close> completes enqueues the work item and then acknowledges the message,
  once; no pass of the loop body and no completion callback acknowledges anything,
  whatever the user logic does. Without auto-ack the listener does not acknowledge
  (the counterexample below).
\<close>

theorem atmost_once_acknowledged_at_ingress:
  fixes s :: "('a, 'u) PythonInstance"
  assumes "constructed self" and "atmost_once self" and "auto_ack self"
    and "\<not> queue_full self s"
  shows "(\<exists>s1. message_listener self sd c m s = Some s1
            \<and> queue s1 = queue s @ [Item \<lparr> message = m, topic = consumer_topic c,
                                          serde = sd, consumer = c \<rparr>]
            \<and> acknowledged s1 = acknowledged s @ [(c, m)])
       \<and> (\<forall>msg (s2 :: ('a, 'u) PythonInstance).
             acknowledged (execute_message self msg s2) = acknowledged s2)
       \<and> (\<forall>c1 m1 result sent_message (s2 :: ('a, 'u) PythonInstance).
             acknowledged (done_producing self c1 m1 result sent_message s2) = acknowledged s2)"
proof -
  have no: "\<not> atleast_once self"
    using assms(1,2) by (rule constructed_modes_exclusive)
  have "acknowledged (execute_message self msg s2) = acknowledged s2"
    for msg and s2 :: "('a, 'u) PythonInstance"
    using execute_message_cases [of self msg s2] no by (auto simp: transport_effects_def)
  moreover have "acknowledged (done_producing self c1 m1 result sm s2) = acknowledged s2"
    for c1 m1 result sm and s2 :: "('a, 'u) PythonInstance"
    using no by (simp add: done_producing_def)
  moreover have "\<exists>s1. message_listener self sd c m s = Some s1
            \<and> queue s1 = queue s @ [Item \<lparr> message = m, topic = consumer_topic c,
                                          serde = sd, consumer = c \<rparr>]
            \<and> acknowledged s1 = acknowledged s @ [(c, m)]"
    using assms(2,3,4) by (simp add: message_listener_def queue_put_def acknowledge_def)
  ultimately show ?thesis by simp
qed


theorem atmost_once_acknowledged_at_ingress_witness:
  "constructed (example_env ATMOST_ONCE True) \<and> atmost_once (example_env ATMOST_ONCE True)
   \<and> auto_ack (example_env ATMOST_ONCE True)
   \<and> \<not> queue_full (example_env ATMOST_ONCE True) example_instance
   \<and> map_option acknowledged
        (message_listener (example_env ATMOST_ONCE True) IdentitySerDe
           \<lparr> consumer_topic = ''in'' \<rparr> \<lparr> data = ''boom'', message_id = ''msg-1'' \<rparr>
           example_instance)
       = Some [(\<lparr> consumer_topic = ''in'' \<rparr>, \<lparr> data = ''boom'', message_id = ''msg-1'' \<rparr>)]
   \<and> acknowledged (execute_message (example_env ATMOST_ONCE True) (example_message ''boom'')
        example_instance) = []"
proof -
  have h1: "constructed (example_env ATMOST_ONCE True)"
    by (simp add: constructed_def example_env_def)
  have h2: "atmost_once (example_env ATMOST_ONCE True)"
    and h3: "auto_ack (example_env ATMOST_ONCE True)"
    by (simp_all add: example_env_def)
  have h4: "\<not> queue_full (example_env ATMOST_ONCE True) example_instance"
    by (simp add: queue_full_def example_env_def example_instance_def)
  from atmost_once_acknowledged_at_ingress [OF h1 h2 h3 h4, of IdentitySerDe
      "\<lparr> consumer_topic = ''in'' \<rparr>" "\<lparr> data = ''boom'', message_id = ''msg-1'' \<rparr>"]
  have "map_option acknowledged
        (message_listener (example_env ATMOST_ONCE True) IdentitySerDe
           \<lparr> consumer_topic = ''in'' \<rparr> \<lparr> data = ''boom'', message_id = ''msg-1'' \<rparr>
           example_instance)
       = Some [(\<lparr> consumer_topic = ''in'' \<rparr>, \<lparr> data = ''boom'', message_id = ''msg-1'' \<rparr>)]"
    and "acknowledged (execute_message (example_env ATMOST_ONCE True) (example_message ''boom'')
        example_instance) = []"
    by (auto simp: example_instance_def)
  with h1 h2 h3 h4 show ?thesis by simp
qed

theorem atmost_once_without_auto_ack_counterexample:
  "constructed (example_env ATMOST_ONCE False) \<and> atmost_once (example_env ATMOST_ONCE False)
   \<and> map_option queue
        (message_listener (example_env ATMOST_ONCE False) IdentitySerDe
           \<lparr> consumer_topic = ''in'' \<rparr> \<lparr> data = ''hello'', message_id = ''msg-1'' \<rparr>
           example_instance)
       = Some [Item (example_message ''hello'')]
   \<and> map_option acknowledged
        (message_listener (example_env ATMOST_ONCE False) IdentitySerDe
           \<lparr> consumer_topic = ''in'' \<rparr> \<lparr> data = ''hello'', message_id = ''msg-1'' \<rparr>
           example_instance)
       = Some []"
  by (simp add: constructed_def example_env_def example_instance_def example_message_def
        message_listener_def queue_put_def queue_full_def Let_def)

section \<open>User exceptions in the status report\<close>

lemma latest_user_exception_add_user:
  "latest_user_exception (add_user_exception x now st) = latest_user_exception st"
  by (simp add: add_user_exception_def Let_def latest_user_exception_mutate)

lemma stats_user_function_raised:
  "stats (user_function_raised self e s) =
     add_user_exception (format_exc e) (clock self (ticks s))
       ((stats s)\<lparr>stat_total_user_exceptions :=
          inc (metrics_labels self) (stat_total_user_exceptions (stats s))\<rparr>)"
  by (simp add: user_function_raised_def time_time_def Let_def)

lemma latest_exceptions_counter_update:
  "latest_user_exception (st\<lparr>stat_total_user_exceptions := v\<rparr>) = latest_user_exception st"
  "latest_sys_exception (st\<lparr>stat_total_user_exceptions := v\<rparr>) = latest_sys_exception st"
  by (simp_all add: latest_user_exception_def latest_sys_exception_def split: option.split)

text \<open>
  Claim C3 fails on the code. The handler of a user exception calls
  \<^verbatim>\<open>add_user_exception\<close>, which appends to \<^verbatim>\<open>latest_sys_exception\<close>: the list that
  \<^verbatim>\<open>get_function_status\<close> reports as the latest user exceptions does not change, and
  the record shows among the latest system exceptions instead. The second theorem
  evaluates the status report after one message on which the user logic raises.
\<close>

theorem user_exception_lands_in_system_list:
  "\<exists>before after.
     get_function_status self s = Inr before
     \<and> get_function_status self (user_function_raised self e s) = Inr after
     \<and> latestUserExceptions after = latestUserExceptions before
     \<and> latestSystemExceptions after =
        (let l = latestSystemExceptions before
                   @ [(format_exc e, py_int (clock self (ticks s) * 1000))]
         in if length l > 10 then tl l else l)"
  by (simp add: get_function_status_returns stats_user_function_raised Let_def
        latest_sys_exception_add_user latest_user_exception_add_user
        latest_exceptions_counter_update)

theorem user_exception_lands_in_system_list_witness:
  "map_sum id latestUserExceptions (get_function_status (example_env ATLEAST_ONCE True)
      (execute_message (example_env ATLEAST_ONCE True) (example_message ''boom'')
         example_instance)) = Inr []
   \<and> map_sum id latestSystemExceptions (get_function_status (example_env ATLEAST_ONCE True)
      (execute_message (example_env ATLEAST_ONCE True) (example_message ''boom'')
         example_instance)) = Inr [(''ValueError: boom'', 101000)]
   \<and> map_sum id numUserExceptions (get_function_status (example_env ATLEAST_ONCE True)
      (execute_message (example_env ATLEAST_ONCE True) (example_message ''boom'')
         example_instance)) = Inr 1
   \<and> map_sum id numSystemExceptions (get_function_status (example_env ATLEAST_ONCE True)
      (execute_message (example_env ATLEAST_ONCE True) (example_message ''boom'')
         example_instance)) = Inr 0"
  using user_exception_lands_in_system_list [of "example_env ATLEAST_ONCE True"
      example_instance "Exception ''ValueError: boom''"]
  by (simp add: example_defs worker_defs get_function_status_returns Let_def Stats_new_def
        add_user_exception_def mutate_latest_sys_exception_def latest_sys_exception_def
        latest_user_exception_def inc_def py_long_def py_int_def)

section \<open>The watchdog\<close>

text \<open>
  Claim C5. A firing of the timer at which more than three times the expected interval
  has passed since the last recorded health check kills the process and starts no
  timer; any other firing leaves the process as it is and starts the next timer with
  the expected interval. A health check returns success and records its time, so a
  firing that comes at most three intervals after a health check reschedules, however
  long the supervisor had been silent before that health check.
\<close>

theorem watchdog_kills_or_reschedules:
  fixes s :: "('a, 'u) PythonInstance"
  shows "(if clock self (ticks s) - last_health_check_ts s > expected_healthcheck_interval self * 3
      then killed (process_spawner_health_check_timer self s)
         \<and> timers (process_spawner_health_check_timer self s) = timers s
      else killed (process_spawner_health_check_timer self s) = killed s
         \<and> timers (process_spawner_health_check_timer self s) =
             timers s @ [expected_healthcheck_interval self])
   \<and> fst (health_check self s)
   \<and> last_health_check_ts (snd (health_check self s)) = clock self (ticks s)
   \<and> (clock self (Suc (ticks s)) - clock self (ticks s) \<le> expected_healthcheck_interval self * 3
        \<longrightarrow> killed (process_spawner_health_check_timer self (snd (health_check self s))) = killed s
          \<and> timers (process_spawner_health_check_timer self (snd (health_check self s))) =
              timers s @ [expected_healthcheck_interval self])"
  by (simp add: process_spawner_health_check_timer_def health_check_def time_time_def Let_def)


theorem watchdog_kills_or_reschedules_witness:
  "clock (example_env ATLEAST_ONCE True) (Suc (ticks (example_instance\<lparr>last_health_check_ts := 0\<rparr>)))
     - clock (example_env ATLEAST_ONCE True) (ticks (example_instance\<lparr>last_health_check_ts := 0\<rparr>))
     \<le> expected_healthcheck_interval (example_env ATLEAST_ONCE True) * 3
   \<and> killed (process_spawner_health_check_timer (example_env ATLEAST_ONCE True)
        (example_instance\<lparr>last_health_check_ts := 0\<rparr>))
   \<and> \<not> killed (process_spawner_health_check_timer (example_env ATLEAST_ONCE True)
        (snd (health_check (example_env ATLEAST_ONCE True)
           (example_instance\<lparr>last_health_check_ts := 0\<rparr>))))
   \<and> timers (process_spawner_health_check_timer (example_env ATLEAST_ONCE True)
        (snd (health_check (example_env ATLEAST_ONCE True)
           (example_instance\<lparr>last_health_check_ts := 0\<rparr>)))) = [30]"
  using watchdog_kills_or_reschedules [of "example_env ATLEAST_ONCE True"
      "example_instance\<lparr>last_health_check_ts := 0\<rparr>"]
  by (simp add: example_env_def example_instance_def)

section \<open>Average latency\<close>

text \<open>Successive \<^verbatim>\<open>observe\<close> calls on the latency summary of one label tuple.\<close>

definition observe_all :: "labelvalues \<Rightarrow> real list \<Rightarrow> Stats \<Rightarrow> Stats" where
  "observe_all l durations st = foldl (\<lambda>st1 d. observe l d st1) st durations"

lemma observe_all_sum_count:
  "stats_process_latency_ms_sum (observe_all l ds st) l =
     stats_process_latency_ms_sum st l + sum_list ds
   \<and> stats_process_latency_ms_count (observe_all l ds st) l =
     stats_process_latency_ms_count st l + real (length ds)"
proof (induction ds rule: rev_induct)
  case Nil
  show ?case by (simp add: observe_all_def)
next
  case (snoc d ds)
  have "observe_all l (ds @ [d]) st = observe l d (observe_all l ds st)"
    by (simp add: observe_all_def)
  with snoc show ?case by (simp add: observe_def inc_def)
qed



section \<open>Snapshot and reset\<close>



section \<open>Shutdown\<close>

lemma detach_detach: "detach q a (detach q' a' s) = detach q a s"
  by (simp add: detach_def)

lemma detach_same: "detach (queue s) (execution_thread_alive s) s = s"
  by (simp add: detach_def)

lemma queue_detach: "queue (detach q a s) = q"
  and alive_detach: "execution_thread_alive (detach q a s) = a"
  by (simp_all add: detach_def)

lemma execute_all_Nil: "execute_all self [] s = s"
  and execute_all_Cons:
    "execute_all self (msg # msgs) s = execute_all self msgs (execute_message self msg s)"
  and execute_all_snoc:
    "execute_all self (msgs @ [msg]) s = execute_message self msg (execute_all self msgs s)"
  by (simp_all add: execute_all_def)

lemma execute_all_detach:
  "execute_all self msgs (detach q a s) = detach q a (execute_all self msgs s)"
  by (induction msgs arbitrary: s) (simp_all add: execute_all_Nil execute_all_Cons execute_message_detach)

lemma actual_execution_items:
  "queue s = map Item msgs @ InternalQuitMessage b # rest \<Longrightarrow>
   actual_execution self s = Exited (detach rest False (execute_all self msgs s))"
proof (induction msgs arbitrary: s)
  case Nil
  then show ?case
    by (simp add: actual_execution.simps [of self s] execute_all_Nil detach_def)
next
  case (Cons msg msgs)
  let ?s1 = "execute_message self msg (s\<lparr>queue := map Item msgs @ InternalQuitMessage b # rest\<rparr>)"
  have q: "queue ?s1 = map Item msgs @ InternalQuitMessage b # rest"
    by (simp add: execute_message_queue)
  have eq: "s\<lparr>queue := map Item msgs @ InternalQuitMessage b # rest\<rparr> =
      detach (map Item msgs @ InternalQuitMessage b # rest) (execution_thread_alive s) s"
    by (simp add: detach_def)
  have "actual_execution self s = actual_execution self ?s1"
    using Cons.prems by (simp add: actual_execution.simps [of self s])
  also have "\<dots> = Exited (detach rest False (execute_all self msgs ?s1))"
    using Cons.IH [OF q] .
  also have "execute_all self msgs ?s1 =
      detach (map Item msgs @ InternalQuitMessage b # rest) (execution_thread_alive s)
        (execute_all self (msg # msgs) s)"
    by (simp add: eq execute_message_detach execute_all_detach execute_all_Cons)
  finally show ?case by (simp add: detach_detach)
qed

text \<open>The quit messages and the work items of a list of queue entries.\<close>

fun is_quit :: "'a queue_item \<Rightarrow> bool" where
  "is_quit (InternalQuitMessage _) = True"
| "is_quit (Item _) = False"

fun items_of :: "'a queue_item list \<Rightarrow> 'a InternalMessage list" where
  "items_of [] = []"
| "items_of (Item msg # xs) = msg # items_of xs"
| "items_of (InternalQuitMessage _ # xs) = items_of xs"

lemma run_schedule_dead:
  "\<not> execution_thread_alive s \<Longrightarrow> run_schedule self acts s = Some s' \<Longrightarrow>
   passes_of acts = 0 \<and> s' = detach (queue s @ puts_of acts) False s"
proof (induction acts arbitrary: s)
  case Nil
  then show ?case by (simp add: detach_def)
next
  case (Cons a acts)
  show ?case
  proof (cases a)
    case (Put x)
    with Cons.prems obtain s1 where s1: "queue_put self x s = Some s1"
      and run: "run_schedule self acts s1 = Some s'"
      by (auto split: option.splits)
    from s1 have eq: "s1 = detach (queue s @ [x]) False s"
      using Cons.prems(1) by (auto simp: queue_put_def detach_def split: if_splits)
    then have "\<not> execution_thread_alive s1" by (simp add: alive_detach)
    from Cons.IH [OF this run] show ?thesis
      using Put by (simp add: eq queue_detach detach_detach)
  next
    case Pass
    with Cons.prems show ?thesis by (simp add: worker_pass_def)
  qed
qed

lemma run_schedule_alive:
  "execution_thread_alive s \<Longrightarrow> run_schedule self acts s = Some s' \<Longrightarrow>
   all = queue s @ puts_of acts \<Longrightarrow> k = passes_of acts \<Longrightarrow>
   k \<le> length all
   \<and> execution_thread_alive s' = (\<not> list_ex is_quit (take k all))
   \<and> s' = detach (drop k all) (\<not> list_ex is_quit (take k all))
           (execute_all self (items_of (take k all)) s)"
proof (induction acts arbitrary: s all k)
  case Nil
  then show ?case by (simp add: execute_all_Nil detach_def)
next
  case (Cons a acts)
  show ?case
  proof (cases a)
    case (Put x)
    with Cons.prems obtain s1 where s1: "queue_put self x s = Some s1"
      and run: "run_schedule self acts s1 = Some s'"
      by (auto split: option.splits)
    from s1 have eq: "s1 = detach (queue s @ [x]) True s"
      using Cons.prems(1) by (auto simp: queue_put_def detach_def split: if_splits)
    then have alive1: "execution_thread_alive s1" by (simp add: alive_detach)
    have all1: "all = queue s1 @ puts_of acts"
      using Cons.prems(3) Put by (simp add: eq queue_detach)
    have k1: "k = passes_of acts"
      using Cons.prems(4) Put by simp
    have "execute_all self msgs s1 = detach (queue s @ [x]) True (execute_all self msgs s)"
      for msgs
      by (simp add: eq execute_all_detach)
    with Cons.IH [OF alive1 run all1 k1] show ?thesis
      by (simp add: detach_detach alive_detach)
  next
    case Pass
    with Cons.prems obtain s1 where s1: "worker_pass self s = Some s1"
      and run: "run_schedule self acts s1 = Some s'"
      by (auto split: option.splits)
    from s1 Cons.prems(1) obtain m rest where q: "queue s = m # rest"
      by (cases "queue s") (auto simp: worker_pass_def)
    have k: "k = Suc (passes_of acts)"
      using Cons.prems(4) Pass by simp
    have all: "all = m # (rest @ puts_of acts)"
      using Cons.prems(3) Pass q by simp
    show ?thesis
    proof (cases m)
      case (InternalQuitMessage b)
      with s1 q Cons.prems(1) have eq: "s1 = detach rest False s"
        by (simp add: worker_pass_def detach_def)
      then have dead: "\<not> execution_thread_alive s1" by (simp add: alive_detach)
      from run_schedule_dead [OF dead run]
      have "passes_of acts = 0" and "s' = detach (rest @ puts_of acts) False s"
        by (simp_all add: eq queue_detach detach_detach)
      then show ?thesis
        using InternalQuitMessage by (simp add: k all alive_detach execute_all_Nil)
    next
      case (Item msg)
      with s1 q Cons.prems(1) have "s1 = execute_message self msg (s\<lparr>queue := rest\<rparr>)"
        by (simp add: worker_pass_def)
      moreover have "s\<lparr>queue := rest\<rparr> = detach rest True s"
        using Cons.prems(1) by (simp add: detach_def)
      ultimately have eq: "s1 = detach rest True (execute_message self msg s)"
        by (simp add: execute_message_detach)
      then have alive1: "execution_thread_alive s1" by (simp add: alive_detach)
      have all1: "rest @ puts_of acts = queue s1 @ puts_of acts"
        by (simp add: eq queue_detach)
      have ex: "execute_all self msgs s1 =
          detach rest True (execute_all self (msg # msgs) s)" for msgs
        by (simp add: eq execute_all_detach execute_all_Cons)
      from Cons.IH [OF alive1 run all1 refl] show ?thesis
        using Item by (simp add: k all ex detach_detach alive_detach)
    qed
  qed
qed

lemma execute_all_append:
  "execute_all self (xs @ ys) s = execute_all self ys (execute_all self xs s)"
  by (simp add: execute_all_def)

lemma list_ex_is_quit_map_Item: "\<not> list_ex is_quit (map Item msgs)"
  by (induction msgs) simp_all

lemma items_of_map_Item: "items_of (map Item msgs) = msgs"
  by (induction msgs) simp_all

lemma items_of_append: "items_of (xs @ ys) = items_of xs @ items_of ys"
  by (induction xs rule: items_of.induct) simp_all

lemma remaining_passes:
  "execution_thread_alive s \<Longrightarrow> queue s = map Item msgs @ [InternalQuitMessage b] \<Longrightarrow>
   run_schedule self (replicate (Suc (length msgs)) Pass) s =
     Some (detach [] False (execute_all self msgs s))"
proof (induction msgs arbitrary: s)
  case Nil
  then show ?case by (simp add: worker_pass_def execute_all_Nil detach_def)
next
  case (Cons msg msgs)
  let ?s1 = "execute_message self msg (s\<lparr>queue := map Item msgs @ [InternalQuitMessage b]\<rparr>)"
  have pass: "worker_pass self s = Some ?s1"
    using Cons.prems by (simp add: worker_pass_def)
  have "s\<lparr>queue := map Item msgs @ [InternalQuitMessage b]\<rparr> =
      detach (map Item msgs @ [InternalQuitMessage b]) True s"
    using Cons.prems(1) by (simp add: detach_def)
  then have eq: "?s1 = detach (map Item msgs @ [InternalQuitMessage b]) True
      (execute_message self msg s)"
    by (simp add: execute_message_detach)
  have "run_schedule self (replicate (Suc (length msgs)) Pass) ?s1 =
      Some (detach [] False (execute_all self msgs ?s1))"
    by (rule Cons.IH) (simp_all add: eq alive_detach queue_detach)
  then show ?case
    using pass by (simp add: eq execute_all_detach detach_detach execute_all_Cons)
qed


text \<open>
  A schedule on the example instance, whose queue holds two entries at most: two
  listeners put, the worker makes a pass, \<^verbatim>\<open>join\<close> puts, the worker makes two passes.
\<close>

definition example_schedule :: "string action list" where
  "example_schedule =
     [Put (Item (example_message ''hello'')), Put (Item (example_message ''boom'')), Pass,
      Put (InternalQuitMessage True), Pass, Pass]"


end
